theory Spec2Isabelle
  imports Complex_Main "HOL-Library.Char_ord" "HOL-Library.List_Lexorder"
begin

section \<open>Data model of the portfolio study controller\<close>

text \<open>
  The controller works on pandas frames of float columns. A float cell is modelled as
  \<open>real option\<close>: \<open>None\<close> is pandas' missing value (NaN), \<open>Some v\<close> a number.
  The columns that are read from the database hold finite numbers or are missing.
  A value that is computed from them by a division, and every value that is drawn, is a
  float of the type \<open>fl\<close>, which also has the two infinities: pandas gives NaN for 0/0
  and an infinity for x/0. Arithmetic on finite values is exact in the model: the
  rounding and the overflow of the doubles are not modelled, and neither is the sign of
  zero. Where rounding decides a property, the rounding of the doubles is written out
  (\<open>round_double\<close>).
  Dates are calendar days, numbered as integers.
\<close>

type_synonym cell = "real option"

datatype error = KeyError string | IndexError | ValueError | TypeError | AttributeError
  | DataAccessError string

text \<open>One row of the long-format frame: the columns of \<open>final_metrics\<close> that the study
  types select, the \<open>stock\<close> tag added by \<open>get_portfolio_data\<close>, and the \<open>value\<close>
  column that \<open>calculate_deltas\<close> writes.\<close>

record row =
  date :: int
  stock :: string
  market_value :: cell
  total_return :: cell
  daily_pl :: cell
  daily_pl_pct :: cell
  total_return_pct :: cell
  cumulative_return_pct :: cell
  cash_dividend :: cell
  cash_dividends_total :: cell
  drp_share :: cell
  drp_shares_total :: cell
  close_price :: cell
  "value" :: cell

text \<open>The \<open>metric\<close> entry of the parameter dictionary is a single name or a list of names
  (\<open>isinstance(params['metric'], list)\<close>).\<close>

datatype metric_param = Single string | Many "string list"

text \<open>The parameter dictionary. The keys that the controller reads with \<open>params[...]\<close>
  are fields; the keys it tests with \<open>in\<close> are options; \<open>zero_at_start\<close> is read with
  \<open>params.get('zero_at_start', False)\<close>.\<close>

record params =
  study_type :: string
  view_type :: string
  chart_type :: string
  calculation_type :: string
  time_period :: string
  display_type :: string
  zero_at_start :: bool
  selected_stocks :: "string list"
  start_date :: int
  end_date :: int
  metric :: "metric_param option"
  metrics :: "string list option"

section \<open>Field resolution in \<open>get_portfolio_data\<close>\<close>

text \<open>\<open>study_type_mapping\<close>, as an association list.\<close>

definition study_type_mapping :: "(string \<times> string list) list" where
  "study_type_mapping =
     [(''market_value'', [''market_value'']),
      (''profitability'', [''total_return'', ''market_value'', ''daily_pl'', ''daily_pl_pct'',
                           ''total_return_pct'', ''cumulative_return_pct'']),
      (''dividend_performance'', [''cash_dividend'', ''cash_dividends_total'', ''drp_share'',
                                  ''drp_shares_total'', ''close_price''])]"

text \<open>The list \<open>fields\<close> as it stands before the duplicates are removed.\<close>

definition raw_fields :: "string \<Rightarrow> metric_param option \<Rightarrow> string list option \<Rightarrow> string list" where
  "raw_fields st m ms =
     [''date''] @ [''market_value'']
     @ (case map_of study_type_mapping st of None \<Rightarrow> [] | Some study_fields \<Rightarrow> study_fields)
     @ (case m of None \<Rightarrow> [] | Some (Many l) \<Rightarrow> l | Some (Single x) \<Rightarrow> [x])
     @ (case ms of None \<Rightarrow> [] | Some l \<Rightarrow> l)"

text \<open>\<open>list(dict.fromkeys(fields))\<close>: a key is inserted when it is not yet in the
  dictionary, and the dictionary keeps the insertion order.\<close>

definition fromkeys :: "'a list \<Rightarrow> 'a list" where
  "fromkeys xs = fold (\<lambda>k acc. if k \<in> set acc then acc else acc @ [k]) xs []"

definition resolve_fields :: "string \<Rightarrow> metric_param option \<Rightarrow> string list option \<Rightarrow> string list" where
  "resolve_fields st m ms = fromkeys (raw_fields st m ms)"


section \<open>Cell arithmetic and column reductions\<close>

text \<open>Arithmetic of float cells: a missing operand gives a missing result.\<close>

definition cell_sub :: "cell \<Rightarrow> cell \<Rightarrow> cell" where
  "cell_sub a b = (case a of None \<Rightarrow> None | Some x \<Rightarrow> (case b of None \<Rightarrow> None | Some y \<Rightarrow> Some (x - y)))"

definition cell_mul :: "cell \<Rightarrow> cell \<Rightarrow> cell" where
  "cell_mul a b = (case a of None \<Rightarrow> None | Some x \<Rightarrow> (case b of None \<Rightarrow> None | Some y \<Rightarrow> Some (x * y)))"

text \<open>\<open>fillna(0)\<close> on one cell.\<close>

definition fillna0 :: "cell \<Rightarrow> real" where
  "fillna0 c = (case c of None \<Rightarrow> 0 | Some v \<Rightarrow> v)"

text \<open>The values of a column that are present, in order: the reductions of pandas skip
  missing values.\<close>

definition present :: "cell list \<Rightarrow> real list" where
  "present cs = map the (filter (\<lambda>c. c \<noteq> None) cs)"

text \<open>\<open>sum()\<close>: missing values count as zero, and the sum of nothing is zero.\<close>

definition nansum :: "cell list \<Rightarrow> real" where
  "nansum cs = sum_list (map fillna0 cs)"

text \<open>\<open>max()\<close>, \<open>min()\<close> and \<open>mean()\<close> of a column: missing when no value is present.
  \<open>std()\<close> is the square root of the sample variance \<open>col_var\<close> (one degree of freedom
  less, so missing when fewer than two values are present); the root is left to the
  statistic that shows it, which keeps the model computable.\<close>

definition col_max :: "cell list \<Rightarrow> cell" where
  "col_max cs = (case present cs of [] \<Rightarrow> None | v # vs \<Rightarrow> Some (fold max vs v))"

definition col_min :: "cell list \<Rightarrow> cell" where
  "col_min cs = (case present cs of [] \<Rightarrow> None | v # vs \<Rightarrow> Some (fold min vs v))"

definition col_mean :: "cell list \<Rightarrow> cell" where
  "col_mean cs = (case present cs of [] \<Rightarrow> None
     | v # vs \<Rightarrow> Some (sum_list (v # vs) / real (length (v # vs))))"

definition col_var :: "cell list \<Rightarrow> cell" where
  "col_var cs =
     (let vs = present cs; n = length vs in
      if n < 2 then None
      else Some (sum_list (map (\<lambda>v. (v - sum_list vs / real n)\<^sup>2) vs) / real (n - 1)))"

text \<open>\<open>diff()\<close>: each element minus the one before it; the first has none before it.\<close>

definition diff :: "cell list \<Rightarrow> cell list" where
  "diff xs = (case xs of [] \<Rightarrow> [] | y # ys \<Rightarrow> None # map2 cell_sub ys (y # ys))"

text \<open>\<open>ffill()\<close> on one column: a missing cell takes the last value seen before it.\<close>

fun ffill_from :: "cell \<Rightarrow> cell list \<Rightarrow> cell list" where
  "ffill_from prev [] = []"
| "ffill_from prev (None # xs) = prev # ffill_from prev xs"
| "ffill_from prev (Some v # xs) = Some v # ffill_from (Some v) xs"

definition ffill :: "cell list \<Rightarrow> cell list" where
  "ffill xs = ffill_from None xs"

section \<open>Floats with infinities\<close>

text \<open>A float as the code computes and draws it: a finite number, plus or minus
  infinity, or NaN. A cell of a frame becomes the float it holds.\<close>

datatype fl = Fin real | PInf | NInf | NaN

definition fl_of_cell :: "cell \<Rightarrow> fl" where
  "fl_of_cell c = (case c of None \<Rightarrow> NaN | Some v \<Rightarrow> Fin v)"

text \<open>The subtraction of two floats. The difference of two finite numbers is given to
  \<open>rnd\<close>, which says how it becomes a float: exactly (\<open>Fin\<close>), as everywhere in the model,
  or rounded to a double (\<open>round_double\<close>).\<close>

fun fl_sub_with :: "(real \<Rightarrow> fl) \<Rightarrow> fl \<Rightarrow> fl \<Rightarrow> fl" where
  "fl_sub_with rnd (Fin a) (Fin b) = rnd (a - b)"
| "fl_sub_with rnd NaN b = NaN"
| "fl_sub_with rnd a NaN = NaN"
| "fl_sub_with rnd PInf PInf = NaN"
| "fl_sub_with rnd NInf NInf = NaN"
| "fl_sub_with rnd PInf b = PInf"
| "fl_sub_with rnd NInf b = NInf"
| "fl_sub_with rnd (Fin a) PInf = NInf"
| "fl_sub_with rnd (Fin a) NInf = PInf"

definition fl_sub :: "fl \<Rightarrow> fl \<Rightarrow> fl" where
  "fl_sub a b = fl_sub_with Fin a b"

text \<open>The product and the quotient of two floats. A finite number over zero is an
  infinity of its sign, zero over zero is NaN.\<close>

fun fl_mul :: "fl \<Rightarrow> fl \<Rightarrow> fl" where
  "fl_mul (Fin a) (Fin b) = Fin (a * b)"
| "fl_mul NaN b = NaN"
| "fl_mul a NaN = NaN"
| "fl_mul (Fin a) PInf = (if a = 0 then NaN else if 0 < a then PInf else NInf)"
| "fl_mul (Fin a) NInf = (if a = 0 then NaN else if 0 < a then NInf else PInf)"
| "fl_mul PInf (Fin b) = (if b = 0 then NaN else if 0 < b then PInf else NInf)"
| "fl_mul NInf (Fin b) = (if b = 0 then NaN else if 0 < b then NInf else PInf)"
| "fl_mul PInf PInf = PInf"
| "fl_mul PInf NInf = NInf"
| "fl_mul NInf PInf = NInf"
| "fl_mul NInf NInf = PInf"

fun fl_div :: "fl \<Rightarrow> fl \<Rightarrow> fl" where
  "fl_div (Fin a) (Fin b) =
     (if b = 0 then (if a = 0 then NaN else if 0 < a then PInf else NInf) else Fin (a / b))"
| "fl_div NaN b = NaN"
| "fl_div a NaN = NaN"
| "fl_div (Fin a) PInf = Fin 0"
| "fl_div (Fin a) NInf = Fin 0"
| "fl_div PInf (Fin b) = (if 0 \<le> b then PInf else NInf)"
| "fl_div NInf (Fin b) = (if 0 \<le> b then NInf else PInf)"
| "fl_div PInf b = NaN"
| "fl_div NInf b = NaN"

text \<open>\<open>(a / b) * 100\<close> on two sums.\<close>

definition percent_of :: "real \<Rightarrow> real \<Rightarrow> fl" where
  "percent_of a b = fl_mul (fl_div (Fin a) (Fin b)) (Fin 100)"

section \<open>The doubles of the code\<close>

text \<open>The floats of the code are IEEE 754 doubles: 53 significant bits, the exponents
  of the units in the last place from -1074 to 971, results rounded to the nearest
  double and to the even one of two nearest; a result that rounds to \<open>2 ^ 1024\<close> or beyond
  is an infinity.\<close>







section \<open>Wide tables: \<open>unstack\<close>, \<open>asfreq('D')\<close>, \<open>ffill\<close>, \<open>sum(axis=1)\<close>\<close>

text \<open>A wide table has a date index and one column of cells per stock label, each as
  long as the index.\<close>

record wide =
  w_index :: "int list"
  w_columns :: "(string \<times> cell list) list"

text \<open>The cell of the long frame at a (date, stock) key, missing when the frame has no
  such row.\<close>

definition lookup_cell :: "(row \<Rightarrow> cell) \<Rightarrow> row list \<Rightarrow> int \<Rightarrow> string \<Rightarrow> cell" where
  "lookup_cell col data d s =
     (case find (\<lambda>r. date r = d \<and> stock r = s) data of None \<Rightarrow> None | Some r \<Rightarrow> col r)"

text \<open>\<open>set_index(['date', 'stock'])\<close>, the selection of one column and \<open>unstack()\<close>: the
  dates become the sorted index, the stocks the sorted column labels, and a repeated
  (date, stock) key cannot be reshaped.\<close>

definition unstack :: "(row \<Rightarrow> cell) \<Rightarrow> row list \<Rightarrow> error + wide" where
  "unstack col data =
     (if \<not> distinct (map (\<lambda>r. (date r, stock r)) data) then Inl ValueError
      else Inr \<lparr>w_index = sort (remdups (map date data)),
                w_columns = map (\<lambda>s. (s, map (\<lambda>d. lookup_cell col data d s)
                                           (sort (remdups (map date data)))))
                                (sort (remdups (map stock data)))\<rparr>)"

text \<open>\<open>asfreq('D')\<close>: the index becomes every day from the first to the last date; a day
  that was not in the index gets missing cells.\<close>

definition reindex_col :: "int list \<Rightarrow> cell list \<Rightarrow> int list \<Rightarrow> cell list" where
  "reindex_col idx c days =
     map (\<lambda>d. case map_of (zip idx c) d of None \<Rightarrow> None | Some v \<Rightarrow> v) days"

definition asfreq_D :: "wide \<Rightarrow> wide" where
  "asfreq_D w =
     (case w_index w of [] \<Rightarrow> w
      | d # ds \<Rightarrow> \<lparr>w_index = [d..last (d # ds)],
                   w_columns = map (\<lambda>(s, c). (s, reindex_col (w_index w) c [d..last (d # ds)]))
                                   (w_columns w)\<rparr>)"

definition ffill_wide :: "wide \<Rightarrow> wide" where
  "ffill_wide w = w\<lparr>w_columns := map (\<lambda>(s, c). (s, ffill c)) (w_columns w)\<rparr>"

text \<open>The alignment that every plot uses: \<open>data[col].unstack().asfreq('D').ffill()\<close>.\<close>

definition align :: "(row \<Rightarrow> cell) \<Rightarrow> row list \<Rightarrow> error + wide" where
  "align col data =
     (case unstack col data of Inl e \<Rightarrow> Inl e | Inr w \<Rightarrow> Inr (ffill_wide (asfreq_D w)))"

text \<open>\<open>w.loc[d, s]\<close>: the cell of a wide table, when both labels are in the table.\<close>

definition wide_cell :: "wide \<Rightarrow> string \<Rightarrow> int \<Rightarrow> cell option" where
  "wide_cell w s d =
     (case map_of (w_columns w) s of None \<Rightarrow> None | Some c \<Rightarrow> map_of (zip (w_index w) c) d)"

text \<open>\<open>sum(axis=1)\<close>: per index entry, the sum over the columns, missing cells skipped.\<close>

definition sum_axis1 :: "wide \<Rightarrow> real list" where
  "sum_axis1 w =
     map (\<lambda>i. nansum (map (\<lambda>(s, c). c ! i) (w_columns w))) [0..<length (w_index w)]"

text \<open>\<open>a.fillna(0) + b.fillna(0)\<close> for two tables with the same index and the same column
  labels (both are unstacked from the same frame).\<close>

definition add_filled :: "wide \<Rightarrow> wide \<Rightarrow> wide" where
  "add_filled a b =
     \<lparr>w_index = w_index a,
      w_columns = map2 (\<lambda>(s, c) (s', c'). (s, map2 (\<lambda>x y. Some (fillna0 x + fillna0 y)) c c'))
                       (w_columns a) (w_columns b)\<rparr>"

text \<open>\<open>groupby('date')[col].sum()\<close>: one entry per date, in date order.\<close>

definition groupby_date_sum :: "(row \<Rightarrow> cell) \<Rightarrow> row list \<Rightarrow> (int \<times> real) list" where
  "groupby_date_sum col data =
     map (\<lambda>d. (d, nansum (map col (filter (\<lambda>r. date r = d) data))))
         (sort (remdups (map date data)))"


section \<open>The collaborators: portfolio and database\<close>

record stock_obj =
  sid :: nat
  yahoo_symbol :: string

text \<open>\<open>current_portfolio\<close>: its \<open>id\<close> and its \<open>get_stock(symbol)\<close>, which gives a stock or
  \<open>None\<close>.\<close>

record portfolio =
  pid :: nat
  get_stock :: "string \<Rightarrow> stock_obj option"

text \<open>\<open>db_manager.fetch_all_with_params\<close> for the two queries of the controller. The
  metrics query gets the selected fields, the stock id and the date range; the
  active-holdings query gets the dividend type, the date range and the portfolio id, and
  its rows are reduced to their second entry, the symbol (\<open>row[1]\<close>). Either may raise.\<close>

record db_manager =
  fetch_metrics :: "string list \<Rightarrow> nat \<Rightarrow> int \<Rightarrow> int \<Rightarrow> error + row list"
  fetch_active :: "string option \<Rightarrow> int \<Rightarrow> int \<Rightarrow> nat \<Rightarrow> error + string list"

section \<open>\<open>get_portfolio_data\<close>\<close>

text \<open>The loop over \<open>params['selected_stocks']\<close>: a symbol without a stock is skipped, an
  empty result adds no frame, and an exception of the read leaves the loop.\<close>

fun fetch_frames ::
  "db_manager \<Rightarrow> portfolio option \<Rightarrow> string list \<Rightarrow> params \<Rightarrow> string list \<Rightarrow> error + row list list" where
  "fetch_frames db pf flds p [] = Inr []"
| "fetch_frames db pf flds p (symb # symbs) =
     (case pf of None \<Rightarrow> Inl AttributeError
      | Some pf' \<Rightarrow>
         (case get_stock pf' symb of None \<Rightarrow> fetch_frames db pf flds p symbs
          | Some st \<Rightarrow>
             (case fetch_metrics db flds (sid st) (start_date p) (end_date p) of
                Inl e \<Rightarrow> Inl e
              | Inr results \<Rightarrow>
                 (case fetch_frames db pf flds p symbs of Inl e \<Rightarrow> Inl e
                  | Inr dfs \<Rightarrow>
                      Inr (if results = [] then dfs
                           else map (\<lambda>r. r\<lparr>stock := symb\<rparr>) results # dfs)))))"

text \<open>The \<open>except\<close> clause logs and re-raises, so the error is the result; without data
  frames the result is the empty frame.\<close>

definition get_portfolio_data :: "db_manager \<Rightarrow> portfolio option \<Rightarrow> params \<Rightarrow> error + row list" where
  "get_portfolio_data db pf p =
     (case fetch_frames db pf (resolve_fields (study_type p) (metric p) (metrics p)) p
             (selected_stocks p) of
        Inl e \<Rightarrow> Inl e
      | Inr dfs \<Rightarrow> Inr (concat dfs))"

section \<open>\<open>calculate_portfolio_total_metrics\<close> and \<open>calculate_deltas\<close>\<close>

datatype total_metrics =
  DollarTotals "(int \<times> real) list"
| PercentTotals "(int \<times> real \<times> real \<times> fl) list"

text \<open>Per date: the sum of \<open>total_return\<close>; for a percentage also the sum of
  \<open>market_value\<close> and the column \<open>value\<close>, their quotient times 100.\<close>

definition calculate_portfolio_total_metrics :: "row list \<Rightarrow> params \<Rightarrow> error + total_metrics" where
  "calculate_portfolio_total_metrics data p =
     (if data = [] then Inl (KeyError ''date'')
      else if chart_type p = ''dollar_value'' then Inr (DollarTotals (groupby_date_sum total_return data))
      else Inr (PercentTotals
             (map2 (\<lambda>(d, tr) (d', mv). (d, tr, mv, percent_of tr mv))
                   (groupby_date_sum total_return data) (groupby_date_sum market_value data))))"

text \<open>\<open>str.replace('_delta', '')\<close>: every occurrence, found from the left, is removed.\<close>

function remove_delta :: "string \<Rightarrow> string" where
  "remove_delta [] = []"
| "remove_delta (c # cs) =
     (if take 6 (c # cs) = ''_delta'' then remove_delta (drop 6 (c # cs))
      else c # remove_delta cs)"
  by pat_completeness auto
termination
  by (relation "measure length") auto

text \<open>The float columns of the row record by their names.\<close>

definition float_column :: "string \<Rightarrow> (row \<Rightarrow> cell) option" where
  "float_column name =
     map_of [(''market_value'', market_value), (''total_return'', total_return),
             (''daily_pl'', daily_pl), (''daily_pl_pct'', daily_pl_pct),
             (''total_return_pct'', total_return_pct),
             (''cumulative_return_pct'', cumulative_return_pct),
             (''cash_dividend'', cash_dividend), (''cash_dividends_total'', cash_dividends_total),
             (''drp_share'', drp_share), (''drp_shares_total'', drp_shares_total),
             (''close_price'', close_price), (''value'', value)] name"

text \<open>The columns of the frame that \<open>get_portfolio_data\<close> returns: the resolved fields
  and the stock tag.\<close>

definition fetched_columns :: "params \<Rightarrow> string list" where
  "fetched_columns p = resolve_fields (study_type p) (metric p) (metrics p) @ [''stock'']"

text \<open>\<open>data.loc[mask, 'value'] = new\<close>: the rows of the mask take the new values in
  order, the other rows keep theirs.\<close>

fun assign_value :: "(row \<Rightarrow> bool) \<Rightarrow> cell list \<Rightarrow> row list \<Rightarrow> row list" where
  "assign_value msk new [] = []"
| "assign_value msk new (r # rs) =
     (if msk r then
        (case new of [] \<Rightarrow> r # assign_value msk [] rs
         | v # vs \<Rightarrow> r\<lparr>value := v\<rparr> # assign_value msk vs rs)
      else r # assign_value msk new rs)"

text \<open>One round of the loop over \<open>data['stock'].unique()\<close>.\<close>

definition delta_step :: "(row \<Rightarrow> cell) \<Rightarrow> string \<Rightarrow> row list \<Rightarrow> row list" where
  "delta_step base s data =
     assign_value (\<lambda>r. stock r = s) (diff (map base (filter (\<lambda>r. stock r = s) data))) data"

text \<open>\<open>calculate_deltas\<close> gets the frame as the list of the columns it has and its
  rows; a field of the row record whose column the frame does not have is not read. The
  rows of a frame without rows and without columns are \<open>pd.DataFrame()\<close>.

  For the individual view: \<open>data['stock']\<close> needs the column \<open>stock\<close>; \<open>unique()\<close> keeps
  the order of first appearance, as \<open>fromkeys\<close> does, and without rows the loop does
  nothing. In the loop a \<open>metric\<close> that is absent from the parameters is a \<open>KeyError\<close>, and
  a list has no \<open>replace\<close>; the base column must be a column of the frame. The dates and
  the stock symbols of the frame are strings, held as Python objects: \<open>diff()\<close> subtracts
  each from the one before it in the mask, which raises \<open>TypeError\<close> as soon as a stock
  has two rows, while a mask of one row subtracts nothing and gets one missing delta. The
  first assignment to \<open>value\<close> creates the column when the frame has none, with missing
  cells outside the mask.

  For the portfolio total \<open>data['value']\<close> needs the column \<open>value\<close>.\<close>

definition calculate_deltas ::
  "string list \<Rightarrow> row list \<Rightarrow> params \<Rightarrow> error + string list \<times> row list" where
  "calculate_deltas cols data p =
     (if view_type p = ''individual_stocks'' then
        (if ''stock'' \<notin> set cols then Inl (KeyError ''stock'')
         else if data = [] then Inr (cols, data)
         else case metric p of
           None \<Rightarrow> Inl (KeyError ''metric'')
         | Some (Many l) \<Rightarrow> Inl AttributeError
         | Some (Single m) \<Rightarrow>
             (if remove_delta m \<notin> set cols then Inl (KeyError (remove_delta m))
              else if remove_delta m = ''date'' \<or> remove_delta m = ''stock'' then
                (if list_ex (\<lambda>s. 2 \<le> length (filter (\<lambda>r. stock r = s) data))
                      (fromkeys (map stock data))
                 then Inl TypeError
                 else Inr (if ''value'' \<in> set cols then cols else cols @ [''value''],
                           map (\<lambda>r. r\<lparr>value := None\<rparr>) data))
              else case float_column (remove_delta m) of
                None \<Rightarrow> Inl (KeyError (remove_delta m))
              | Some base \<Rightarrow>
                  Inr (if ''value'' \<in> set cols then cols else cols @ [''value''],
                       fold (delta_step base) (fromkeys (map stock data))
                         (if ''value'' \<in> set cols then data
                          else map (\<lambda>r. r\<lparr>value := None\<rparr>) data))))
      else if ''value'' \<notin> set cols then Inl (KeyError ''value'')
      else Inr (cols, map2 (\<lambda>r v. r\<lparr>value := v\<rparr>) data (diff (map value data))))"


section \<open>The plots\<close>

text \<open>What a plot method draws: lines (label, x values, y values), a stack of filled
  columns, or the pie of one date (with the total of the label above the slider).\<close>

type_synonym line = "string \<times> int list \<times> fl list"

datatype plot =
  Lines "line list"
| Stacked "int list" "(string \<times> real list) list"
| Pie int real "(string \<times> real) list"

text \<open>A frame without rows is \<open>pd.DataFrame()\<close>, which has no column: the first column
  access of each method raises \<open>KeyError\<close>.\<close>

definition plot_market_value :: "row list \<Rightarrow> params \<Rightarrow> error + plot" where
  "plot_market_value data p =
     (if data = [] then Inl (KeyError ''date'')
      else case align market_value data of
        Inl e \<Rightarrow> Inl e
      | Inr plot_data \<Rightarrow>
          if view_type p = ''individual_stocks'' then
            Inr (Lines (concat (map (\<lambda>s. case map_of (w_columns plot_data) s of
                                            None \<Rightarrow> []
                                          | Some c \<Rightarrow> [(s, w_index plot_data, map fl_of_cell c)])
                                    (selected_stocks p))))
          else if chart_type p = ''line_chart'' then
            Inr (Lines [(''Total Portfolio'', w_index plot_data, map Fin (sum_axis1 plot_data))])
          else if chart_type p = ''stacked_area'' then
            Inr (Stacked (w_index plot_data)
                   (map (\<lambda>(s, c). (s, map fillna0 c)) (w_columns plot_data)))
          else Inr (Lines []))"

text \<open>The column that \<open>plot_profitability\<close> selects.\<close>

definition profitability_metric :: "params \<Rightarrow> row \<Rightarrow> cell" where
  "profitability_metric p =
     (if chart_type p = ''dollar_value'' then
        (if calculation_type p = ''daily'' then daily_pl else total_return)
      else if chart_type p = ''percentage'' then
        (if calculation_type p = ''daily'' then daily_pl_pct else total_return_pct)
      else cumulative_return_pct)"

text \<open>\<open>y_values - y_values.iloc[0]\<close>; \<open>iloc[0]\<close> of an empty series raises. The
  subtraction is \<open>fl_sub_with rnd\<close>; the plots use the exact one.\<close>

definition zero_series_with :: "(real \<Rightarrow> fl) \<Rightarrow> fl list \<Rightarrow> error + fl list" where
  "zero_series_with rnd ys =
     (case ys of [] \<Rightarrow> Inl IndexError | y # _ \<Rightarrow> Inr (map (\<lambda>v. fl_sub_with rnd v y) ys))"

definition zero_series :: "fl list \<Rightarrow> error + fl list" where
  "zero_series ys = zero_series_with Fin ys"

text \<open>The loop over the selected stocks of the individual view.\<close>

fun stock_lines :: "row list \<Rightarrow> params \<Rightarrow> string list \<Rightarrow> error + line list" where
  "stock_lines data p [] = Inr []"
| "stock_lines data p (s # ss) =
     (let stock_data = filter (\<lambda>r. stock r = s) data;
          y_values = map (\<lambda>r. fl_of_cell (profitability_metric p r)) stock_data
      in case (if zero_at_start p \<and> calculation_type p = ''cumulative''
               then zero_series y_values else Inr y_values) of
           Inl e \<Rightarrow> Inl e
         | Inr ys \<Rightarrow>
             (case stock_lines data p ss of
                Inl e \<Rightarrow> Inl e
              | Inr ls \<Rightarrow> Inr ((s, map date stock_data, ys) # ls)))"

text \<open>The percentage series of the portfolio total before it is zeroed: per date of the
  frame for daily changes, per calendar day of the aligned tables otherwise.\<close>

definition percentage_series :: "row list \<Rightarrow> params \<Rightarrow> error + int list \<times> fl list" where
  "percentage_series data p =
     (if calculation_type p = ''daily'' then
        Inr (map fst (groupby_date_sum daily_pl data),
             map2 percent_of (map snd (groupby_date_sum daily_pl data))
                             (map snd (groupby_date_sum market_value data)))
      else case align total_return data of
        Inl e \<Rightarrow> Inl e
      | Inr total_return_data \<Rightarrow>
          (case align market_value data of
             Inl e \<Rightarrow> Inl e
           | Inr market_value_data \<Rightarrow>
               Inr (w_index total_return_data,
                    map2 percent_of (sum_axis1 total_return_data) (sum_axis1 market_value_data))))"

definition portfolio_total_lines :: "row list \<Rightarrow> params \<Rightarrow> error + line list" where
  "portfolio_total_lines data p =
     (if calculation_type p = ''cumulative'' \<and> chart_type p = ''dollar_value'' then
        (case align (profitability_metric p) data of
           Inl e \<Rightarrow> Inl e
         | Inr plot_data \<Rightarrow>
             (case (if zero_at_start p then zero_series (map Fin (sum_axis1 plot_data))
                    else Inr (map Fin (sum_axis1 plot_data))) of
                Inl e \<Rightarrow> Inl e
              | Inr ys \<Rightarrow> Inr [(''Portfolio Total'', w_index plot_data, ys)]))
      else if chart_type p = ''percentage'' then
        (case percentage_series data p of
           Inl e \<Rightarrow> Inl e
         | Inr (xs, y_values) \<Rightarrow>
             (case (if zero_at_start p \<and> calculation_type p = ''cumulative''
                    then zero_series y_values else Inr y_values) of
                Inl e \<Rightarrow> Inl e
              | Inr ys \<Rightarrow> Inr [(''Portfolio Total'', xs, ys)]))
      else Inr [])"

definition plot_profitability :: "row list \<Rightarrow> params \<Rightarrow> error + plot" where
  "plot_profitability data p =
     (if data = [] then Inl (KeyError ''date'')
      else case (if view_type p = ''individual_stocks'' then stock_lines data p (selected_stocks p)
                 else portfolio_total_lines data p) of
        Inl e \<Rightarrow> Inl e
      | Inr ls \<Rightarrow> Inr (Lines ls))"

text \<open>The dollar value of the reinvested shares of one row.\<close>

definition drp_value :: "row \<Rightarrow> cell" where
  "drp_value r = cell_mul (drp_share r) (close_price r)"

definition drp_value_total :: "row \<Rightarrow> cell" where
  "drp_value_total r = cell_mul (drp_shares_total r) (close_price r)"

text \<open>The table that \<open>plot_dividends\<close> draws from, before the cumulative views are
  aligned. The columns \<open>drp_value\<close> and \<open>drp_value_total\<close> exist only for the chart types
  \<open>drp\<close> and \<open>combined\<close>, so any other chart type but \<open>cash\<close> ends in a \<open>KeyError\<close>.\<close>

definition dividend_table :: "row list \<Rightarrow> params \<Rightarrow> error + wide" where
  "dividend_table data p =
     (if chart_type p = ''cash'' then
        unstack (if time_period p = ''cumulative'' then cash_dividends_total else cash_dividend) data
      else if chart_type p = ''drp'' then
        unstack (if time_period p = ''cumulative'' then drp_value_total else drp_value) data
      else
        (case unstack (if time_period p = ''cumulative'' then cash_dividends_total
                       else cash_dividend) data of
           Inl e \<Rightarrow> Inl e
         | Inr cash_data \<Rightarrow>
             if chart_type p \<noteq> ''combined'' then
               Inl (KeyError (if time_period p = ''cumulative'' then ''drp_value_total''
                              else ''drp_value''))
             else
               (case unstack (if time_period p = ''cumulative'' then drp_value_total
                              else drp_value) data of
                  Inl e \<Rightarrow> Inl e
                | Inr drp_data \<Rightarrow> Inr (add_filled cash_data drp_data))))"

definition plot_dividends :: "row list \<Rightarrow> params \<Rightarrow> error + plot" where
  "plot_dividends data p =
     (if data = [] then Inl (KeyError ''date'')
      else case dividend_table data p of
        Inl e \<Rightarrow> Inl e
      | Inr table \<Rightarrow>
          (let plot_data = (if time_period p = ''cumulative'' then ffill_wide (asfreq_D table)
                            else table)
           in if view_type p = ''individual_stocks'' then
                Inr (Lines (map (\<lambda>(s, c). (s, w_index plot_data, map fl_of_cell c))
                                (w_columns plot_data)))
              else
                Inr (Lines [(if chart_type p = ''combined'' then ''Total Dividends''
                             else ''Portfolio Total'',
                             w_index plot_data, map Fin (sum_axis1 plot_data))])))"

text \<open>The pie that \<open>plot_distribution\<close> draws first, for slider position 0: the stocks
  with a positive value on the first day of the aligned table. The widgets of the slider
  are not modelled; the Charts tab is taken to exist.\<close>

definition plot_distribution :: "row list \<Rightarrow> error + plot" where
  "plot_distribution data =
     (if data = [] then Inl (KeyError ''date'')
      else case align market_value data of
        Inl e \<Rightarrow> Inl e
      | Inr plot_data \<Rightarrow>
          (case w_index plot_data of
             [] \<Rightarrow> Inr (Lines [])
           | current_date # _ \<Rightarrow>
               Inr (Pie current_date
                      (nansum (map (\<lambda>(s, c). c ! 0) (w_columns plot_data)))
                      (concat (map (\<lambda>(s, c). case c ! 0 of None \<Rightarrow> []
                                                | Some v \<Rightarrow> if v > 0 then [(s, v)] else [])
                                   (w_columns plot_data))))))"

section \<open>\<open>update_statistics_table\<close>\<close>

text \<open>A statistic before it is formatted into its string: a count (\<open>str(len(...))\<close>),
  an amount with its prefix and suffix (\<open>f"{prefix}{x:.2f}{suffix}"\<close>), the square root
  of an amount with its suffix (the standard deviation, given by its variance), or a
  stock label with an amount (\<open>f"{label} (${x:,.2f})"\<close>, \<open>f"{label} ({x:.1f}%)"\<close>).\<close>

datatype stat =
  Count nat
| Amount string cell string
| RootAmount cell string
| Named "string option" fl

text \<open>\<open>groupby('stock')[col]\<close> with a reduction: one entry per stock, in label order.\<close>

definition groupby_stock :: "(cell list \<Rightarrow> cell) \<Rightarrow> (row \<Rightarrow> cell) \<Rightarrow> row list \<Rightarrow> (string \<times> cell) list" where
  "groupby_stock f col data =
     map (\<lambda>s. (s, f (map col (filter (\<lambda>r. stock r = s) data)))) (sort (remdups (map stock data)))"

text \<open>\<open>last()\<close> of a group: its last value that is present.\<close>

definition last_valid :: "cell list \<Rightarrow> cell" where
  "last_valid cs = (case present cs of [] \<Rightarrow> None | v # vs \<Rightarrow> Some (last (v # vs)))"

text \<open>\<open>idxmax()\<close> and \<open>idxmin()\<close>: the first label that holds the extreme value.\<close>

definition idx_of :: "cell \<Rightarrow> (string \<times> cell) list \<Rightarrow> string option" where
  "idx_of target xs =
     (case target of None \<Rightarrow> None
      | Some t \<Rightarrow> map_option fst (find (\<lambda>(s, v). v = Some t) xs))"

definition market_value_stats :: "row list \<Rightarrow> (string \<times> stat) list" where
  "market_value_stats data =
     (let latest_values = groupby_stock last_valid market_value data;
          total_value = nansum (map snd latest_values)
      in [(''Total Portfolio Value'', Amount ''$'' (Some total_value) []),
          (''Number of Holdings'', Count (length latest_values)),
          (''Largest Holding'', Named (idx_of (col_max (map snd latest_values)) latest_values)
                                      (fl_of_cell (col_max (map snd latest_values)))),
          (''Smallest Holding'', Named (idx_of (col_min (map snd latest_values)) latest_values)
                                       (fl_of_cell (col_min (map snd latest_values))))])"

definition profitability_stats :: "row list \<Rightarrow> params \<Rightarrow> (string \<times> stat) list" where
  "profitability_stats data p =
     (let col = (if display_type p = ''Percentage''
                 then (if time_period p = ''Daily Changes'' then daily_pl_pct else total_return_pct)
                 else (if time_period p = ''Daily Changes'' then daily_pl else total_return));
          suffix = (if display_type p = ''Percentage'' then ''%'' else ''$'')
      in [(''Average Return'', Amount [] (col_mean (map col data)) suffix),
          (''Best Return'', Amount [] (col_max (map col data)) suffix),
          (''Worst Return'', Amount [] (col_min (map col data)) suffix),
          (''Volatility'', RootAmount (col_var (map col data)) suffix)])"

definition dividend_stats :: "row list \<Rightarrow> params \<Rightarrow> (string \<times> stat) list" where
  "dividend_stats data p =
     (let total_col = (if view_type p = ''Cash Dividends'' then cash_dividends_total
                       else drp_shares_total);
          period_col = (if view_type p = ''Cash Dividends'' then cash_dividend else drp_share);
          prefix = (if view_type p = ''Cash Dividends'' then ''$'' else [])
      in [(''Total Received'', Amount prefix (col_max (map total_col data)) []),
          (''Average Per Period'', Amount prefix (col_mean (map period_col data)) []),
          (''Largest Single Payment'', Amount prefix (col_max (map period_col data)) []),
          (''Number of Payments'',
             Count (length (filter (\<lambda>r. case period_col r of None \<Rightarrow> False | Some v \<Rightarrow> v > 0)
                                   data)))])"

definition distribution_stats :: "row list \<Rightarrow> (string \<times> stat) list" where
  "distribution_stats data =
     (let latest_date = Max (set (map date data));
          latest_values = filter (\<lambda>r. date r = latest_date) data;
          holdings = groupby_stock (\<lambda>cs. Some (nansum cs)) market_value latest_values;
          total = nansum (map snd holdings)
      in [(''Number of Holdings'', Count (length holdings)),
          (''Total Portfolio Value'', Amount ''$'' (Some total) []),
          (''Largest Allocation'',
             Named (idx_of (col_max (map snd holdings)) holdings)
                   (fl_mul (fl_div (fl_of_cell (col_max (map snd holdings))) (Fin total))
                           (Fin 100))),
          (''Smallest Allocation'',
             Named (idx_of (col_min (map snd holdings)) holdings)
                   (fl_mul (fl_div (fl_of_cell (col_min (map snd holdings))) (Fin total))
                           (Fin 100)))])"

text \<open>The dispatch of \<open>update_statistics_table\<close> on \<open>params['study_type']\<close>. The result is
  the dictionary \<open>stats\<close>, in insertion order. A frame without rows has no column, and
  the first column that the branch reads is the \<open>KeyError\<close>.\<close>

definition update_statistics_table :: "row list \<Rightarrow> params \<Rightarrow> error + (string \<times> stat) list" where
  "update_statistics_table data p =
     (if study_type p = ''Market Value'' then
        (if data = [] then Inl (KeyError ''stock'') else Inr (market_value_stats data))
      else if study_type p = ''Profitability'' then
        (if data = []
         then Inl (KeyError (if display_type p = ''Percentage''
                             then (if time_period p = ''Daily Changes'' then ''daily_pl_pct''
                                   else ''total_return_pct'')
                             else (if time_period p = ''Daily Changes'' then ''daily_pl''
                                   else ''total_return'')))
         else Inr (profitability_stats data p))
      else if study_type p = ''Dividend Performance'' then
        (if data = []
         then Inl (KeyError (if view_type p = ''Cash Dividends'' then ''cash_dividends_total''
                             else ''drp_shares_total''))
         else Inr (dividend_stats data p))
      else
        (if data = [] then Inl (KeyError ''date'') else Inr (distribution_stats data)))"

section \<open>\<open>analyse_portfolio\<close> and \<open>get_active_stocks_for_date_range\<close>\<close>

text \<open>What one call of \<open>analyse_portfolio\<close> leaves behind: the warning that there is no
  data, the warning \<open>"Failed to analyse portfolio: " + str(e)\<close> of its \<open>except\<close> clause,
  or the plot and the statistics.\<close>

datatype outcome =
  NoData
| AnalysisError error
| Analysed plot "(string \<times> stat) list"

definition analyse_portfolio :: "db_manager \<Rightarrow> portfolio option \<Rightarrow> params \<Rightarrow> outcome" where
  "analyse_portfolio db pf p =
     (case get_portfolio_data db pf p of
        Inl e \<Rightarrow> AnalysisError e
      | Inr data \<Rightarrow>
          if data = [] then NoData
          else
            (case (if study_type p = ''market_value'' then plot_market_value data p
                   else if study_type p = ''profitability'' then plot_profitability data p
                   else if study_type p = ''dividend_performance'' then plot_dividends data p
                   else plot_distribution data) of
               Inl e \<Rightarrow> AnalysisError e
             | Inr pl \<Rightarrow>
                 (case update_statistics_table data p of
                    Inl e \<Rightarrow> AnalysisError e
                  | Inr st \<Rightarrow> Analysed pl st)))"

text \<open>The symbols of the query that the portfolio knows become stock objects, the others
  are logged and left out. The \<open>except\<close> clause covers the whole body and returns the empty
  list.\<close>

definition get_active_stocks_for_date_range ::
  "db_manager \<Rightarrow> portfolio option \<Rightarrow> int \<Rightarrow> int \<Rightarrow> string option \<Rightarrow> stock_obj list" where
  "get_active_stocks_for_date_range db pf start_d end_d dividend_type =
     (case pf of
        None \<Rightarrow> []
      | Some pf' \<Rightarrow>
          (case fetch_active db dividend_type start_d end_d (pid pf') of
             Inl e \<Rightarrow> []
           | Inr results \<Rightarrow>
               concat (map (\<lambda>symb. case get_stock pf' symb of None \<Rightarrow> [] | Some st \<Rightarrow> [st])
                           results)))"

section \<open>Example inputs\<close>

text \<open>A row and a parameter dictionary to build examples from: a row with every cell
  missing, and parameters with every text empty.\<close>

definition blank_row :: "int \<Rightarrow> string \<Rightarrow> row" where
  "blank_row d s =
     \<lparr>date = d, stock = s, market_value = None, total_return = None, daily_pl = None,
      daily_pl_pct = None, total_return_pct = None, cumulative_return_pct = None,
      cash_dividend = None, cash_dividends_total = None, drp_share = None,
      drp_shares_total = None, close_price = None, value = None\<rparr>"

definition blank_params :: params where
  "blank_params =
     \<lparr>study_type = [], view_type = [], chart_type = [], calculation_type = [],
      time_period = [], display_type = [], zero_at_start = False, selected_stocks = [],
      start_date = 0, end_date = 0, metric = None, metrics = None\<rparr>"

text \<open>The scenario of the specification: stock A has the market values 100 and 110 on
  2024-01-01 and 2024-01-02 (the days 738886 and 738887 of the proleptic Gregorian
  calendar), stock B has 50 on 2024-01-01 only.\<close>

definition scenario_frame :: "row list" where
  "scenario_frame =
     [(blank_row 738886 ''A'')\<lparr>market_value := Some 100\<rparr>,
      (blank_row 738887 ''A'')\<lparr>market_value := Some 110\<rparr>,
      (blank_row 738886 ''B'')\<lparr>market_value := Some 50\<rparr>]"

text \<open>A portfolio of the stocks A and B, a database that holds the scenario, and a
  database whose reads fail.\<close>

definition scenario_portfolio :: portfolio where
  "scenario_portfolio =
     \<lparr>pid = 1,
      get_stock = map_of [(''A'', \<lparr>sid = 1, yahoo_symbol = ''A''\<rparr>),
                          (''B'', \<lparr>sid = 2, yahoo_symbol = ''B''\<rparr>)]\<rparr>"

definition scenario_db :: db_manager where
  "scenario_db =
     \<lparr>fetch_metrics = (\<lambda>flds i lo hi.
        Inr (filter (\<lambda>r. lo \<le> date r \<and> date r \<le> hi)
               (if i = 1 then [(blank_row 738886 [])\<lparr>market_value := Some 100\<rparr>,
                               (blank_row 738887 [])\<lparr>market_value := Some 110\<rparr>]
                else if i = 2 then [(blank_row 738886 [])\<lparr>market_value := Some 50\<rparr>]
                else []))),
      fetch_active = (\<lambda>dividend_type lo hi i. Inr [''A'', ''B''])\<rparr>"

definition failing_db :: db_manager where
  "failing_db =
     \<lparr>fetch_metrics = (\<lambda>flds i lo hi. Inl (DataAccessError ''database is locked'')),
      fetch_active = (\<lambda>dividend_type lo hi i. Inl (DataAccessError ''database is locked''))\<rparr>"

definition scenario_params :: params where
  "scenario_params =
     blank_params\<lparr>study_type := ''market_value'', view_type := ''portfolio_total'',
                   chart_type := ''line_chart'', selected_stocks := [''A'', ''B''],
                   start_date := 738886, end_date := 738887\<rparr>"

text \<open>A frame of two stocks with interleaved rows, and parameters that ask for the
  deltas of the market value per stock.\<close>

definition deltas_frame :: "row list" where
  "deltas_frame =
     [(blank_row 738886 ''A'')\<lparr>market_value := Some 100, value := Some 7\<rparr>,
      (blank_row 738886 ''B'')\<lparr>market_value := Some 50, value := Some 7\<rparr>,
      (blank_row 738887 ''A'')\<lparr>market_value := Some 110, value := Some 7\<rparr>,
      (blank_row 738887 ''B'')\<lparr>market_value := Some 50, value := Some 7\<rparr>,
      (blank_row 738888 ''A'')\<lparr>market_value := Some 105, value := Some 9\<rparr>]"

definition deltas_params :: params where
  "deltas_params =
     blank_params\<lparr>view_type := ''individual_stocks'',
                   metric := Some (Single ''market_value_delta'')\<rparr>"

text \<open>One stock with the cash dividends 5, 0 and 5 on three days, their running total,
  and reinvested shares on the second day only.\<close>

definition dividend_frame :: "row list" where
  "dividend_frame =
     [(blank_row 738886 ''A'')\<lparr>cash_dividend := Some 5, cash_dividends_total := Some 5,
         drp_share := Some 0, drp_shares_total := Some 0, close_price := Some 4\<rparr>,
      (blank_row 738887 ''A'')\<lparr>cash_dividend := Some 0, cash_dividends_total := Some 5,
         drp_share := Some (1 / 2), drp_shares_total := Some (1 / 2), close_price := Some 4\<rparr>,
      (blank_row 738888 ''A'')\<lparr>cash_dividend := Some 5, cash_dividends_total := Some 10,
         drp_share := Some 0, drp_shares_total := Some (1 / 2), close_price := Some 6\<rparr>]"

definition dividend_stats_params :: params where
  "dividend_stats_params =
     blank_params\<lparr>study_type := ''Dividend Performance'', view_type := ''Cash Dividends''\<rparr>"

text \<open>Frames for the profitability study. One stock with the total returns 10, 15 and 20
  on three days; two stocks of which B has no row on the second day; and one stock
  that is worth nothing and has returned nothing on the first day.\<close>

definition returns_frame :: "row list" where
  "returns_frame =
     [(blank_row 738886 ''A'')\<lparr>market_value := Some 100, total_return := Some 10,
                                 daily_pl := Some 10\<rparr>,
      (blank_row 738887 ''A'')\<lparr>market_value := Some 100, total_return := Some 15,
                                 daily_pl := Some 5\<rparr>,
      (blank_row 738888 ''A'')\<lparr>market_value := Some 110, total_return := Some 20,
                                 daily_pl := Some 5\<rparr>]"

definition gap_frame :: "row list" where
  "gap_frame =
     [(blank_row 738886 ''A'')\<lparr>market_value := Some 100, total_return := Some 10,
                                 daily_pl := Some 10\<rparr>,
      (blank_row 738887 ''A'')\<lparr>market_value := Some 100, total_return := Some 20,
                                 daily_pl := Some 10\<rparr>,
      (blank_row 738886 ''B'')\<lparr>market_value := Some 100, total_return := Some 5,
                                 daily_pl := Some 5\<rparr>]"




text \<open>Parameters of the profitability study for the portfolio total.\<close>

definition total_params :: "string \<Rightarrow> string \<Rightarrow> bool \<Rightarrow> params" where
  "total_params calc chart zero =
     blank_params\<lparr>study_type := ''profitability'', view_type := ''portfolio_total'',
                   calculation_type := calc, chart_type := chart, zero_at_start := zero\<rparr>"

text \<open>Parameters of the dividend study.\<close>

definition dividend_params :: "string \<Rightarrow> string \<Rightarrow> string \<Rightarrow> params" where
  "dividend_params chart period view_t =
     blank_params\<lparr>study_type := ''dividend_performance'', chart_type := chart,
                   time_period := period, view_type := view_t\<rparr>"

section \<open>Auxiliary notions for the proofs\<close>

text \<open>The table over the dates and stocks of a frame whose cell at a date and a stock is
  given by a function: the shape of every unstacked table.\<close>

definition grid :: "(int \<Rightarrow> string \<Rightarrow> cell) \<Rightarrow> row list \<Rightarrow> wide" where
  "grid f data =
     \<lparr>w_index = sort (remdups (map date data)),
      w_columns = map (\<lambda>s. (s, map (\<lambda>d. f d s) (sort (remdups (map date data)))))
                      (sort (remdups (map stock data)))\<rparr>"

text \<open>The cell of a wide table with a missing or absent cell taken as zero, as the sums
  over the columns take it.\<close>

definition filled_cell :: "wide \<Rightarrow> string \<Rightarrow> int \<Rightarrow> real" where
  "filled_cell w s d = (case wide_cell w s d of Some (Some v) \<Rightarrow> v | _ \<Rightarrow> 0)"

text \<open>The sum of a column over the rows of one date, missing cells skipped.\<close>

definition date_sum :: "(row \<Rightarrow> cell) \<Rightarrow> row list \<Rightarrow> int \<Rightarrow> real" where
  "date_sum col data d = nansum (map col (filter (\<lambda>r. date r = d) data))"


section \<open>Properties of the field resolution\<close>

lemma fromkeys_prefix:
  "\<exists>ys. fold (\<lambda>k acc. if k \<in> set acc then acc else acc @ [k]) xs acc = acc @ ys"
  by (induction xs arbitrary: acc) (auto, metis append.assoc)

lemma fromkeys_fold_set:
  "set (fold (\<lambda>k acc. if k \<in> set acc then acc else acc @ [k]) xs acc) = set acc \<union> set xs"
  by (induction xs arbitrary: acc) auto

lemma fromkeys_fold_distinct:
  "distinct acc \<Longrightarrow> distinct (fold (\<lambda>k acc. if k \<in> set acc then acc else acc @ [k]) xs acc)"
  by (induction xs arbitrary: acc) auto

lemma fromkeys_fold_nth_fresh:
  assumes "distinct acc" "length acc \<le> i"
    and "i < length (fold (\<lambda>k acc. if k \<in> set acc then acc else acc @ [k]) xs acc)"
  shows "fold (\<lambda>k acc. if k \<in> set acc then acc else acc @ [k]) xs acc ! i \<notin> set acc"
proof -
  let ?F = "fold (\<lambda>k acc. if k \<in> set acc then acc else acc @ [k]) xs acc"
  obtain ys where ys: "?F = acc @ ys" using fromkeys_prefix by blast
  have "distinct (acc @ ys)" using fromkeys_fold_distinct[OF assms(1), of xs] ys by simp
  then have disj: "set acc \<inter> set ys = {}" by simp
  have "(acc @ ys) ! i = ys ! (i - length acc)" using assms(2) by (simp add: nth_append)
  moreover have "i - length acc < length ys" using assms(2,3) ys by simp
  ultimately have "(acc @ ys) ! i \<in> set ys" by simp
  with disj ys show ?thesis by auto
qed

text \<open>The keys that stand before position \<open>i\<close> of the result are those met before the
  first occurrence of the key at position \<open>i\<close>.\<close>

lemma fromkeys_fold_order:
  "distinct acc \<Longrightarrow> length acc \<le> i \<Longrightarrow>
   i < length (fold (\<lambda>k acc. if k \<in> set acc then acc else acc @ [k]) xs acc) \<Longrightarrow>
   set (take i (fold (\<lambda>k acc. if k \<in> set acc then acc else acc @ [k]) xs acc)) =
   set acc \<union> set (takeWhile (\<lambda>x. x \<noteq> fold (\<lambda>k acc. if k \<in> set acc then acc else acc @ [k]) xs acc ! i) xs)"
proof (induction xs arbitrary: acc)
  case Nil
  then show ?case by simp
next
  case (Cons k rest)
  let ?step = "\<lambda>k acc. if k \<in> set acc then acc else acc @ [k]"
  have fresh: "fold ?step (k # rest) acc ! i \<notin> set acc"
    using Cons.prems by (rule fromkeys_fold_nth_fresh)
  show ?case
  proof (cases "k \<in> set acc")
    case True
    then have eq: "fold ?step (k # rest) acc = fold ?step rest acc" by simp
    have ne: "k \<noteq> fold ?step rest acc ! i" using fresh True eq by auto
    have "set (take i (fold ?step rest acc)) =
          set acc \<union> set (takeWhile (\<lambda>x. x \<noteq> fold ?step rest acc ! i) rest)"
      using Cons.IH[of acc] Cons.prems eq by simp
    then show ?thesis using True ne eq by auto
  next
    case False
    then have eq: "fold ?step (k # rest) acc = fold ?step rest (acc @ [k])" by simp
    have d: "distinct (acc @ [k])" using False Cons.prems(1) by simp
    obtain ys where ys: "fold ?step rest (acc @ [k]) = (acc @ [k]) @ ys"
      using fromkeys_prefix by blast
    show ?thesis
    proof (cases "i = length acc")
      case True
      then have "fold ?step rest (acc @ [k]) ! i = k" using ys by (simp add: nth_append)
      moreover have "take i (fold ?step rest (acc @ [k])) = acc" using ys True by simp
      ultimately show ?thesis using eq by simp
    next
      case False
      then have le: "length (acc @ [k]) \<le> i" using Cons.prems(2) by simp
      have lt: "i < length (fold ?step rest (acc @ [k]))" using Cons.prems(3) eq by simp
      have "fold ?step rest (acc @ [k]) ! i \<notin> set (acc @ [k])"
        using d le lt by (rule fromkeys_fold_nth_fresh)
      then have ne: "k \<noteq> fold ?step rest (acc @ [k]) ! i" by auto
      have "set (take i (fold ?step rest (acc @ [k]))) =
          set (acc @ [k]) \<union> set (takeWhile (\<lambda>x. x \<noteq> fold ?step rest (acc @ [k]) ! i) rest)"
        using Cons.IH[OF d le lt] .
      then show ?thesis using ne eq by auto
    qed
  qed
qed

lemma fromkeys_distinct: "distinct (fromkeys xs)"
  by (simp add: fromkeys_def fromkeys_fold_distinct)

lemma fromkeys_set: "set (fromkeys xs) = set xs"
  by (simp add: fromkeys_def fromkeys_fold_set)

lemma fromkeys_order:
  "i < length (fromkeys xs) \<Longrightarrow>
   set (take i (fromkeys xs)) = set (takeWhile (\<lambda>x. x \<noteq> fromkeys xs ! i) xs)"
  using fromkeys_fold_order[of "[]" i xs] by (simp add: fromkeys_def)

lemma raw_fields_shape: "\<exists>rest. raw_fields st m ms = ''date'' # ''market_value'' # rest"
  by (simp add: raw_fields_def)

lemma resolve_fields_head: "take 2 (resolve_fields st m ms) = [''date'', ''market_value'']"
proof -
  obtain rest where r: "raw_fields st m ms = ''date'' # ''market_value'' # rest"
    using raw_fields_shape by blast
  have "resolve_fields st m ms =
        fold (\<lambda>k acc. if k \<in> set acc then acc else acc @ [k]) rest [''date'', ''market_value'']"
    by (simp add: resolve_fields_def fromkeys_def r)
  then obtain ys where "resolve_fields st m ms = [''date'', ''market_value''] @ ys"
    using fromkeys_prefix[of rest "[''date'', ''market_value'']"] by auto
  then show ?thesis by simp
qed

lemma resolve_fields_unknown:
  "st \<notin> {''market_value'', ''profitability'', ''dividend_performance''} \<Longrightarrow>
   resolve_fields st None None = [''date'', ''market_value'']"
  by (simp add: resolve_fields_def fromkeys_def raw_fields_def study_type_mapping_def)

text \<open>
  Claim C6. For every study type, recognised or not, and every optional \<open>metric\<close> and
  \<open>metrics\<close> input, the resolved column list begins with \<open>date\<close> and \<open>market_value\<close>, has
  no duplicate, holds exactly the columns that were appended, and keeps them in the
  order in which each was first seen: the columns before position \<open>i\<close> are those appended
  before the first occurrence of the column at position \<open>i\<close>. For a study type outside
  the mapping and no extra metric the list is exactly \<open>date\<close>, \<open>market_value\<close>; the
  function is total, so no error is raised.
\<close>

theorem resolve_fields_ordered_distinct:
  "take 2 (resolve_fields st m ms) = [''date'', ''market_value'']
   \<and> distinct (resolve_fields st m ms)
   \<and> set (resolve_fields st m ms) = set (raw_fields st m ms)
   \<and> (\<forall>i < length (resolve_fields st m ms).
         set (take i (resolve_fields st m ms)) =
         set (takeWhile (\<lambda>x. x \<noteq> resolve_fields st m ms ! i) (raw_fields st m ms)))
   \<and> (st \<notin> {''market_value'', ''profitability'', ''dividend_performance''} \<longrightarrow>
         resolve_fields st None None = [''date'', ''market_value''])"
  using resolve_fields_head[of st m ms] resolve_fields_unknown[of st]
  by (auto simp add: resolve_fields_def fromkeys_distinct fromkeys_set fromkeys_order)

theorem resolve_fields_ordered_distinct_witness:
  "resolve_fields ''profitability'' (Some (Single ''daily_pl'')) (Some [''close_price'', ''date'']) =
     [''date'', ''market_value'', ''total_return'', ''daily_pl'', ''daily_pl_pct'',
      ''total_return_pct'', ''cumulative_return_pct'', ''close_price'']
   \<and> distinct (resolve_fields ''profitability'' (Some (Single ''daily_pl''))
                  (Some [''close_price'', ''date'']))
   \<and> 3 < length (resolve_fields ''profitability'' (Some (Single ''daily_pl''))
                  (Some [''close_price'', ''date'']))
   \<and> set (take 3 (resolve_fields ''profitability'' (Some (Single ''daily_pl''))
                  (Some [''close_price'', ''date'']))) =
       {''date'', ''market_value'', ''total_return''}
   \<and> ''portfolio_distribution'' \<notin> {''market_value'', ''profitability'', ''dividend_performance''}
   \<and> resolve_fields ''portfolio_distribution'' None None = [''date'', ''market_value'']"
  using resolve_fields_ordered_distinct[of "''profitability''" "Some (Single ''daily_pl'')"
          "Some [''close_price'', ''date'']"]
        resolve_fields_ordered_distinct[of "''portfolio_distribution''" None None]
  by (simp add: resolve_fields_def fromkeys_def raw_fields_def study_type_mapping_def)

section \<open>The dispatch of the statistics\<close>

lemma scenario_fetched:
  "get_portfolio_data scenario_db (Some scenario_portfolio) scenario_params = Inr scenario_frame"
  by (simp add: get_portfolio_data_def scenario_db_def scenario_portfolio_def scenario_params_def
      blank_params_def scenario_frame_def blank_row_def)

lemma scenario_distribution_stats:
  "distribution_stats scenario_frame =
     [(''Number of Holdings'', Count 1),
      (''Total Portfolio Value'', Amount ''$'' (Some 110) []),
      (''Largest Allocation'', Named (Some ''A'') (Fin 100)),
      (''Smallest Allocation'', Named (Some ''A'') (Fin 100))]"
  by (simp add: distribution_stats_def scenario_frame_def blank_row_def groupby_stock_def
      nansum_def fillna0_def col_max_def col_min_def present_def idx_of_def cell_mul_def
      fl_of_cell_def Let_def)

lemma scenario_market_value_stats:
  "market_value_stats scenario_frame =
     [(''Total Portfolio Value'', Amount ''$'' (Some 160) []),
      (''Number of Holdings'', Count 2),
      (''Largest Holding'', Named (Some ''A'') (Fin 110)),
      (''Smallest Holding'', Named (Some ''B'') (Fin 50))]"
  by (simp add: market_value_stats_def scenario_frame_def blank_row_def groupby_stock_def
      nansum_def fillna0_def col_max_def col_min_def present_def idx_of_def last_valid_def
      fl_of_cell_def Let_def)

lemma scenario_analysed:
  "analyse_portfolio scenario_db (Some scenario_portfolio) scenario_params =
     Analysed (Lines [(''Total Portfolio'', [738886, 738887], [Fin 150, Fin 160])])
       [(''Number of Holdings'', Count 1),
        (''Total Portfolio Value'', Amount ''$'' (Some 110) []),
        (''Largest Allocation'', Named (Some ''A'') (Fin 100)),
        (''Smallest Allocation'', Named (Some ''A'') (Fin 100))]"
  by code_simp

text \<open>
  Claim C10. \<open>update_statistics_table\<close> compares the study type with the labels
  \<open>Market Value\<close>, \<open>Profitability\<close> and \<open>Dividend Performance\<close>, while \<open>analyse_portfolio\<close>
  dispatches its plots on \<open>market_value\<close>, \<open>profitability\<close> and \<open>dividend_performance\<close>.
  So for every parameter dictionary whose study type is one of the three lowercase
  values, \<open>update_statistics_table\<close> takes none of its named branches and computes the
  statistics of the distribution branch (number of holdings, total value, largest and
  smallest allocation); and whenever \<open>analyse_portfolio\<close> completes for such parameters,
  the statistics it shows are those of the distribution branch on the fetched frame.
\<close>

theorem statistics_dispatch_lowercase:
  assumes "study_type p \<in> {''market_value'', ''profitability'', ''dividend_performance''}"
  shows "update_statistics_table data p =
           (if data = [] then Inl (KeyError ''date'') else Inr (distribution_stats data))
         \<and> map fst (distribution_stats data) =
             [''Number of Holdings'', ''Total Portfolio Value'', ''Largest Allocation'',
              ''Smallest Allocation'']
         \<and> (\<forall>pl st. analyse_portfolio db pf p = Analysed pl st \<longrightarrow>
               (\<exists>fetched. get_portfolio_data db pf p = Inr fetched
                          \<and> st = distribution_stats fetched))"
proof -
  have u: "\<And>d. update_statistics_table d p =
           (if d = [] then Inl (KeyError ''date'') else Inr (distribution_stats d))"
    using assms by (auto simp add: update_statistics_table_def)
  have l: "map fst (distribution_stats data) =
             [''Number of Holdings'', ''Total Portfolio Value'', ''Largest Allocation'',
              ''Smallest Allocation'']"
    by (simp add: distribution_stats_def Let_def)
  have a: "\<forall>pl st. analyse_portfolio db pf p = Analysed pl st \<longrightarrow>
               (\<exists>fetched. get_portfolio_data db pf p = Inr fetched
                          \<and> st = distribution_stats fetched)"
    unfolding analyse_portfolio_def u
    by (auto split: sum.splits if_splits)
  show ?thesis using u l a by blast
qed

text \<open>On the scenario the market-value study shows one holding worth 110 (the stocks of
  the latest date), where the branch \<open>Market Value\<close> would show two holdings worth 160.\<close>

theorem statistics_dispatch_lowercase_witness:
  "study_type scenario_params \<in> {''market_value'', ''profitability'', ''dividend_performance''}
   \<and> update_statistics_table scenario_frame scenario_params =
       Inr [(''Number of Holdings'', Count 1),
            (''Total Portfolio Value'', Amount ''$'' (Some 110) []),
            (''Largest Allocation'', Named (Some ''A'') (Fin 100)),
            (''Smallest Allocation'', Named (Some ''A'') (Fin 100))]
   \<and> analyse_portfolio scenario_db (Some scenario_portfolio) scenario_params =
       Analysed (Lines [(''Total Portfolio'', [738886, 738887], [Fin 150, Fin 160])])
         (distribution_stats scenario_frame)
   \<and> update_statistics_table scenario_frame (scenario_params\<lparr>study_type := ''Market Value''\<rparr>) =
       Inr [(''Total Portfolio Value'', Amount ''$'' (Some 160) []),
            (''Number of Holdings'', Count 2),
            (''Largest Holding'', Named (Some ''A'') (Fin 110)),
            (''Smallest Holding'', Named (Some ''B'') (Fin 50))]"
proof -
  have st: "study_type scenario_params \<in>
              {''market_value'', ''profitability'', ''dividend_performance''}"
    by (simp add: scenario_params_def blank_params_def)
  have ne: "scenario_frame \<noteq> []" by (simp add: scenario_frame_def)
  have "update_statistics_table scenario_frame scenario_params =
          Inr (distribution_stats scenario_frame)"
    using statistics_dispatch_lowercase[OF st, of scenario_frame] ne by simp
  moreover have "update_statistics_table scenario_frame
                   (scenario_params\<lparr>study_type := ''Market Value''\<rparr>) =
                 Inr (market_value_stats scenario_frame)"
    using ne by (simp add: update_statistics_table_def)
  ultimately show ?thesis
    using st scenario_analysed scenario_distribution_stats scenario_market_value_stats
    by simp
qed

section \<open>Failures of the reads\<close>

lemma fetch_frames_fails:
  "symb \<in> set symbs \<Longrightarrow> get_stock pf' symb = Some st \<Longrightarrow>
   fetch_metrics db flds (sid st) (start_date p) (end_date p) = Inl e \<Longrightarrow>
   \<exists>e'. fetch_frames db (Some pf') flds p symbs = Inl e'"
  by (induction symbs) (auto split: option.splits sum.splits)

lemma fetch_frames_error_origin:
  "fetch_frames db (Some pf') flds p symbs = Inl e \<Longrightarrow>
   \<exists>symb\<in>set symbs. \<exists>st. get_stock pf' symb = Some st \<and>
      fetch_metrics db flds (sid st) (start_date p) (end_date p) = Inl e"
  by (induction symbs) (auto split: option.splits sum.splits)

text \<open>
  Claim C8, as amended. A failure of a read inside \<open>get_portfolio_data\<close> is never turned
  into a default value: whenever a read for a selected stock of the portfolio fails,
  \<open>get_portfolio_data\<close> fails, its error is the error of such a read, unchanged, and
  \<open>analyse_portfolio\<close> ends with exactly this error, which only there becomes the
  user-facing message. \<open>get_active_stocks_for_date_range\<close> is different: it catches the
  failure of its query itself and returns the empty list.
\<close>

theorem failures_reach_analysis_except_active_stocks:
  "(\<forall>e. get_portfolio_data db pf p = Inl e \<longrightarrow> analyse_portfolio db pf p = AnalysisError e)
   \<and> (\<forall>pf' symb st e.
         pf = Some pf' \<and> symb \<in> set (selected_stocks p) \<and> get_stock pf' symb = Some st \<and>
         fetch_metrics db (resolve_fields (study_type p) (metric p) (metrics p)) (sid st)
           (start_date p) (end_date p) = Inl e
         \<longrightarrow> (\<exists>e'. get_portfolio_data db pf p = Inl e'))
   \<and> (\<forall>pf' e.
         pf = Some pf' \<and> get_portfolio_data db pf p = Inl e
         \<longrightarrow> (\<exists>symb\<in>set (selected_stocks p). \<exists>st. get_stock pf' symb = Some st \<and>
               fetch_metrics db (resolve_fields (study_type p) (metric p) (metrics p)) (sid st)
                 (start_date p) (end_date p) = Inl e))
   \<and> (\<forall>pf' e.
         pf = Some pf' \<and> fetch_active db dividend_type lo hi (pid pf') = Inl e
         \<longrightarrow> get_active_stocks_for_date_range db pf lo hi dividend_type = [])"
proof (intro conjI allI impI)
  fix e assume "get_portfolio_data db pf p = Inl e"
  then show "analyse_portfolio db pf p = AnalysisError e"
    by (simp add: analyse_portfolio_def)
next
  fix pf' symb st e
  assume a: "pf = Some pf' \<and> symb \<in> set (selected_stocks p) \<and> get_stock pf' symb = Some st \<and>
         fetch_metrics db (resolve_fields (study_type p) (metric p) (metrics p)) (sid st)
           (start_date p) (end_date p) = Inl e"
  then obtain e' where
    "fetch_frames db (Some pf') (resolve_fields (study_type p) (metric p) (metrics p)) p
       (selected_stocks p) = Inl e'"
    using fetch_frames_fails by blast
  then show "\<exists>e'. get_portfolio_data db pf p = Inl e'"
    using a by (simp add: get_portfolio_data_def)
next
  fix pf' e
  assume a: "pf = Some pf' \<and> get_portfolio_data db pf p = Inl e"
  then have "fetch_frames db (Some pf') (resolve_fields (study_type p) (metric p) (metrics p)) p
       (selected_stocks p) = Inl e"
    by (simp add: get_portfolio_data_def split: sum.splits)
  then show "\<exists>symb\<in>set (selected_stocks p). \<exists>st. get_stock pf' symb = Some st \<and>
               fetch_metrics db (resolve_fields (study_type p) (metric p) (metrics p)) (sid st)
                 (start_date p) (end_date p) = Inl e"
    by (rule fetch_frames_error_origin)
next
  fix pf' e
  assume "pf = Some pf' \<and> fetch_active db dividend_type lo hi (pid pf') = Inl e"
  then show "get_active_stocks_for_date_range db pf lo hi dividend_type = []"
    by (simp add: get_active_stocks_for_date_range_def)
qed

lemma failing_fetch:
  "get_portfolio_data failing_db (Some scenario_portfolio) scenario_params =
     Inl (DataAccessError ''database is locked'')"
  by (simp add: get_portfolio_data_def failing_db_def scenario_portfolio_def scenario_params_def
      blank_params_def)

text \<open>The claim as stated (no component converts a failure into a default return
  value) fails for the active-holdings query: its read fails and the result is the empty
  list.\<close>

theorem active_stocks_swallow_failure:
  "fetch_active failing_db None 738886 738887 (pid scenario_portfolio) =
     Inl (DataAccessError ''database is locked'')
   \<and> get_active_stocks_for_date_range failing_db (Some scenario_portfolio) 738886 738887 None = []"
  by (simp add: get_active_stocks_for_date_range_def failing_db_def)

theorem failures_reach_analysis_except_active_stocks_witness:
  "get_portfolio_data failing_db (Some scenario_portfolio) scenario_params =
     Inl (DataAccessError ''database is locked'')
   \<and> analyse_portfolio failing_db (Some scenario_portfolio) scenario_params =
       AnalysisError (DataAccessError ''database is locked'')
   \<and> ''A'' \<in> set (selected_stocks scenario_params)
   \<and> get_stock scenario_portfolio ''A'' = Some \<lparr>sid = 1, yahoo_symbol = ''A''\<rparr>
   \<and> fetch_metrics failing_db
        (resolve_fields (study_type scenario_params) (metric scenario_params)
           (metrics scenario_params))
        1 (start_date scenario_params) (end_date scenario_params) =
       Inl (DataAccessError ''database is locked'')
   \<and> fetch_active failing_db (Some ''cash'') 738886 738887 (pid scenario_portfolio) =
       Inl (DataAccessError ''database is locked'')
   \<and> get_active_stocks_for_date_range failing_db (Some scenario_portfolio) 738886 738887
        (Some ''cash'') = []"
proof -
  have f: "fetch_active failing_db (Some ''cash'') 738886 738887 (pid scenario_portfolio) =
       Inl (DataAccessError ''database is locked'')"
    by (simp add: failing_db_def)
  have m: "fetch_metrics failing_db
        (resolve_fields (study_type scenario_params) (metric scenario_params)
           (metrics scenario_params))
        1 (start_date scenario_params) (end_date scenario_params) =
       Inl (DataAccessError ''database is locked'')"
    by (simp add: failing_db_def)
  have s: "''A'' \<in> set (selected_stocks scenario_params)"
    "get_stock scenario_portfolio ''A'' = Some \<lparr>sid = 1, yahoo_symbol = ''A''\<rparr>"
    by (simp_all add: scenario_params_def blank_params_def scenario_portfolio_def)
  show ?thesis
    using failures_reach_analysis_except_active_stocks[of failing_db "Some scenario_portfolio"
            scenario_params "Some ''cash''" 738886 738887]
      failing_fetch f m s
    by simp
qed

section \<open>Day-over-day deltas\<close>

lemma diff_length: "length (diff xs) = length xs"
  by (cases xs) (simp_all add: diff_def)

lemma diff_first: "xs \<noteq> [] \<Longrightarrow> diff xs ! 0 = None"
  by (cases xs) (simp_all add: diff_def)

lemma diff_nth: "0 < i \<Longrightarrow> i < length xs \<Longrightarrow> diff xs ! i = cell_sub (xs ! i) (xs ! (i - 1))"
  by (cases xs; cases i) (simp_all add: diff_def)

lemma diff_constant: "diff (replicate (Suc n) (Some c)) = None # replicate n (Some 0)"
proof -
  have "map2 cell_sub (replicate n (Some c)) (replicate (Suc n) (Some c)) = replicate n (Some 0)"
    by (induction n) (simp_all add: cell_sub_def)
  then show ?thesis by (simp add: diff_def)
qed

lemma assign_value_stock:
  "map stock (assign_value (\<lambda>r. stock r = s) new rs) = map stock rs"
  by (induction rs arbitrary: new) (auto split: list.splits)

lemma assign_value_same:
  "length new = length (filter (\<lambda>r. stock r = s) rs) \<Longrightarrow>
   map value (filter (\<lambda>r. stock r = s) (assign_value (\<lambda>r. stock r = s) new rs)) = new"
  by (induction rs arbitrary: new) (auto split: list.splits)

lemma assign_value_other:
  "t \<noteq> s \<Longrightarrow>
   filter (\<lambda>r. stock r = t) (assign_value (\<lambda>r. stock r = s) new rs) = filter (\<lambda>r. stock r = t) rs"
  by (induction rs arbitrary: new) (auto split: list.splits)

lemma delta_step_same:
  "map value (filter (\<lambda>r. stock r = s) (delta_step base s data)) =
   diff (map base (filter (\<lambda>r. stock r = s) data))"
  unfolding delta_step_def by (rule assign_value_same) (simp add: diff_length)

lemma delta_step_other:
  "t \<noteq> s \<Longrightarrow> filter (\<lambda>r. stock r = t) (delta_step base s data) = filter (\<lambda>r. stock r = t) data"
  unfolding delta_step_def by (rule assign_value_other)

lemma delta_step_stock: "map stock (delta_step base s data) = map stock data"
  unfolding delta_step_def by (rule assign_value_stock)

lemma fold_delta_step_stock: "map stock (fold (delta_step base) ss data) = map stock data"
  by (induction ss arbitrary: data) (simp_all add: delta_step_stock)

lemma fold_delta_step_other:
  "t \<notin> set ss \<Longrightarrow>
   filter (\<lambda>r. stock r = t) (fold (delta_step base) ss data) = filter (\<lambda>r. stock r = t) data"
  by (induction ss arbitrary: data) (simp_all add: delta_step_other)

lemma fold_delta_step_same:
  "distinct ss \<Longrightarrow> t \<in> set ss \<Longrightarrow>
   map value (filter (\<lambda>r. stock r = t) (fold (delta_step base) ss data)) =
   diff (map base (filter (\<lambda>r. stock r = t) data))"
proof (induction ss arbitrary: data)
  case Nil
  then show ?case by simp
next
  case (Cons s rest)
  show ?case
  proof (cases "t = s")
    case True
    then have "t \<notin> set rest" using Cons.prems(1) by simp
    then show ?thesis using True by (simp add: fold_delta_step_other delta_step_same)
  next
    case False
    then have "t \<in> set rest" using Cons.prems(2) by simp
    then show ?thesis using Cons.IH[of "delta_step base s data"] Cons.prems(1) False
      by (simp add: delta_step_other)
  qed
qed

lemma fold_delta_step_all:
  "map value (filter (\<lambda>r. stock r = t) (fold (delta_step base) (fromkeys (map stock data)) data)) =
   diff (map base (filter (\<lambda>r. stock r = t) data))"
proof (cases "t \<in> set (map stock data)")
  case True
  then show ?thesis
    by (simp add: fold_delta_step_same fromkeys_distinct fromkeys_set del: set_map)
next
  case False
  then have "t \<notin> set (fromkeys (map stock data))" by (simp add: fromkeys_set del: set_map)
  then have "filter (\<lambda>r. stock r = t) (fold (delta_step base) (fromkeys (map stock data)) data) =
             filter (\<lambda>r. stock r = t) data"
    by (rule fold_delta_step_other)
  moreover have "filter (\<lambda>r. stock r = t) data = []" using False by (auto simp: filter_empty_conv)
  ultimately show ?thesis by (simp add: diff_def)
qed

lemma map2_value_diff:
  "length vs = length rs \<Longrightarrow> map value (map2 (\<lambda>r v. r\<lparr>value := v\<rparr>) rs vs) = vs"
  by (induction rs vs rule: list_induct2') simp_all

lemma map2_value_stock:
  "length vs = length rs \<Longrightarrow> map stock (map2 (\<lambda>r v. r\<lparr>value := v\<rparr>) rs vs) = map stock rs"
  by (induction rs vs rule: list_induct2') simp_all

lemma float_column_not_value:
  "float_column n = Some base \<Longrightarrow> n \<noteq> ''value'' \<Longrightarrow> base (r\<lparr>value := v\<rparr>) = base r"
  by (auto simp add: float_column_def split: if_splits)

lemma float_column_strings: "float_column ''date'' = None" "float_column ''stock'' = None"
  by (simp_all add: float_column_def)

lemma fold_delta_step_created:
  assumes "float_column n = Some base" and "n \<noteq> ''value''"
  shows "map value (filter (\<lambda>r. stock r = t)
           (fold (delta_step base) (fromkeys (map stock data))
              (map (\<lambda>r. r\<lparr>value := None\<rparr>) data))) =
         diff (map base (filter (\<lambda>r. stock r = t) data))"
proof -
  let ?d = "map (\<lambda>r. r\<lparr>value := None\<rparr>) data"
  have s: "map stock ?d = map stock data" by simp
  have b: "map base (filter (\<lambda>r. stock r = t) ?d) = map base (filter (\<lambda>r. stock r = t) data)"
    using float_column_not_value[OF assms] by (induction data) simp_all
  have "map value (filter (\<lambda>r. stock r = t) (fold (delta_step base) (fromkeys (map stock ?d)) ?d))
        = diff (map base (filter (\<lambda>r. stock r = t) ?d))"
    by (rule fold_delta_step_all)
  then show ?thesis unfolding s b .
qed

text \<open>
  Claim C3. \<open>calculate_deltas\<close> writes into \<open>value\<close> the strict difference of each element
  against the element just before it in the same series: per stock in the individual
  view (for every stock, the deltas of its rows are the \<open>diff\<close> of its own base column,
  whatever rows of other stocks lie between), and on the \<open>value\<close> series of the whole
  frame otherwise. \<open>diff\<close> keeps the length of the series, so no row is dropped; the
  first element has no prior value and its delta is missing, not zero; a constant series
  of length at least two has the delta zero everywhere after the first; and the one delta
  of a series of length one is missing. The result exists where the code returns one:
  for the portfolio total when the frame has the column \<open>value\<close> (without it the code
  raises \<open>KeyError\<close>), and for the individual view when the frame has the column \<open>stock\<close>
  and the base column, a float column (a base column that the frame does not have is a
  \<open>KeyError\<close>, and the string columns \<open>date\<close> and \<open>stock\<close> a \<open>TypeError\<close> when a stock
  has two rows).
\<close>

theorem calculate_deltas_is_diff:
  "length (diff xs) = length xs
   \<and> (xs \<noteq> [] \<longrightarrow> diff xs ! 0 = None)
   \<and> (\<forall>i. 0 < i \<and> i < length xs \<longrightarrow> diff xs ! i = cell_sub (xs ! i) (xs ! (i - 1)))
   \<and> (2 \<le> n \<longrightarrow> diff (replicate n (Some c)) = None # replicate (n - 1) (Some 0))
   \<and> diff [x] = [None]
   \<and> (view_type p \<noteq> ''individual_stocks'' \<and> ''value'' \<in> set cols \<longrightarrow>
        (\<exists>res. calculate_deltas cols data p = Inr (cols, res) \<and> map stock res = map stock data
               \<and> map value res = diff (map value data)))
   \<and> (view_type p \<noteq> ''individual_stocks'' \<and> ''value'' \<notin> set cols \<longrightarrow>
        calculate_deltas cols data p = Inl (KeyError ''value''))
   \<and> (view_type p = ''individual_stocks'' \<and> ''stock'' \<in> set cols \<and> data \<noteq> []
        \<and> metric p = Some (Single m) \<and> remove_delta m \<in> set cols
        \<and> float_column (remove_delta m) = Some base \<longrightarrow>
        (\<exists>res. calculate_deltas cols data p =
                 Inr (if ''value'' \<in> set cols then cols else cols @ [''value''], res)
               \<and> map stock res = map stock data
               \<and> (\<forall>s. map value (filter (\<lambda>r. stock r = s) res) =
                        diff (map base (filter (\<lambda>r. stock r = s) data)))))
   \<and> (view_type p = ''individual_stocks'' \<and> ''stock'' \<in> set cols \<and> data \<noteq> []
        \<and> metric p = Some (Single m) \<and> remove_delta m \<in> set cols
        \<and> (remove_delta m = ''date'' \<or> remove_delta m = ''stock'')
        \<and> (\<exists>s. 2 \<le> length (filter (\<lambda>r. stock r = s) data)) \<longrightarrow>
        calculate_deltas cols data p = Inl TypeError)
   \<and> (view_type p = ''individual_stocks'' \<and> ''stock'' \<in> set cols \<and> data \<noteq> []
        \<and> metric p = Some (Single m) \<and> remove_delta m \<notin> set cols \<longrightarrow>
        calculate_deltas cols data p = Inl (KeyError (remove_delta m)))"
proof -
  have c: "2 \<le> n \<longrightarrow> diff (replicate n (Some c)) = None # replicate (n - 1) (Some 0)"
    using diff_constant[of "n - 1" c] by (cases n) simp_all
  have t: "view_type p \<noteq> ''individual_stocks'' \<and> ''value'' \<in> set cols \<longrightarrow>
        (\<exists>res. calculate_deltas cols data p = Inr (cols, res) \<and> map stock res = map stock data
               \<and> map value res = diff (map value data))"
    using map2_value_diff[of "diff (map value data)" data]
      map2_value_stock[of "diff (map value data)" data]
    by (simp add: calculate_deltas_def diff_length)
  have k: "view_type p \<noteq> ''individual_stocks'' \<and> ''value'' \<notin> set cols \<longrightarrow>
        calculate_deltas cols data p = Inl (KeyError ''value'')"
    by (simp add: calculate_deltas_def)
  have i: "view_type p = ''individual_stocks'' \<and> ''stock'' \<in> set cols \<and> data \<noteq> []
        \<and> metric p = Some (Single m) \<and> remove_delta m \<in> set cols
        \<and> float_column (remove_delta m) = Some base \<longrightarrow>
        (\<exists>res. calculate_deltas cols data p =
                 Inr (if ''value'' \<in> set cols then cols else cols @ [''value''], res)
               \<and> map stock res = map stock data
               \<and> (\<forall>s. map value (filter (\<lambda>r. stock r = s) res) =
                        diff (map base (filter (\<lambda>r. stock r = s) data))))"
  proof
    assume a: "view_type p = ''individual_stocks'' \<and> ''stock'' \<in> set cols \<and> data \<noteq> []
        \<and> metric p = Some (Single m) \<and> remove_delta m \<in> set cols
        \<and> float_column (remove_delta m) = Some base"
    then have ns: "remove_delta m \<noteq> ''date''" "remove_delta m \<noteq> ''stock''"
      using float_column_strings by auto
    show "\<exists>res. calculate_deltas cols data p =
                 Inr (if ''value'' \<in> set cols then cols else cols @ [''value''], res)
               \<and> map stock res = map stock data
               \<and> (\<forall>s. map value (filter (\<lambda>r. stock r = s) res) =
                        diff (map base (filter (\<lambda>r. stock r = s) data)))"
    proof (cases "''value'' \<in> set cols")
      case True
      then show ?thesis using a ns
        by (simp add: calculate_deltas_def fold_delta_step_all fold_delta_step_stock)
    next
      case False
      then have nv: "remove_delta m \<noteq> ''value''" using a by auto
      have "\<forall>s. map value (filter (\<lambda>r. stock r = s)
                (fold (delta_step base) (fromkeys (map stock data))
                   (map (\<lambda>r. r\<lparr>value := None\<rparr>) data))) =
              diff (map base (filter (\<lambda>r. stock r = s) data))"
        using fold_delta_step_created[of "remove_delta m" base _ data] a nv by simp
      then show ?thesis using a ns False
        by (simp add: calculate_deltas_def fold_delta_step_stock comp_def)
    qed
  qed
  have e: "view_type p = ''individual_stocks'' \<and> ''stock'' \<in> set cols \<and> data \<noteq> []
        \<and> metric p = Some (Single m) \<and> remove_delta m \<in> set cols
        \<and> (remove_delta m = ''date'' \<or> remove_delta m = ''stock'')
        \<and> (\<exists>s. 2 \<le> length (filter (\<lambda>r. stock r = s) data)) \<longrightarrow>
        calculate_deltas cols data p = Inl TypeError"
  proof
    assume a: "view_type p = ''individual_stocks'' \<and> ''stock'' \<in> set cols \<and> data \<noteq> []
        \<and> metric p = Some (Single m) \<and> remove_delta m \<in> set cols
        \<and> (remove_delta m = ''date'' \<or> remove_delta m = ''stock'')
        \<and> (\<exists>s. 2 \<le> length (filter (\<lambda>r. stock r = s) data))"
    then obtain s where s: "2 \<le> length (filter (\<lambda>r. stock r = s) data)" by blast
    then have "filter (\<lambda>r. stock r = s) data \<noteq> []" by auto
    then have "s \<in> set (map stock data)" by (auto simp add: filter_empty_conv)
    then have "list_ex (\<lambda>s. 2 \<le> length (filter (\<lambda>r. stock r = s) data))
                 (fromkeys (map stock data))"
      using s unfolding list_ex_iff fromkeys_set by blast
    then show "calculate_deltas cols data p = Inl TypeError"
      using a by (auto simp add: calculate_deltas_def)
  qed
  have f: "view_type p = ''individual_stocks'' \<and> ''stock'' \<in> set cols \<and> data \<noteq> []
        \<and> metric p = Some (Single m) \<and> remove_delta m \<notin> set cols \<longrightarrow>
        calculate_deltas cols data p = Inl (KeyError (remove_delta m))"
    by (simp add: calculate_deltas_def)
  have d: "length (diff xs) = length xs
   \<and> (xs \<noteq> [] \<longrightarrow> diff xs ! 0 = None)
   \<and> (\<forall>i. 0 < i \<and> i < length xs \<longrightarrow> diff xs ! i = cell_sub (xs ! i) (xs ! (i - 1)))
   \<and> diff [x] = [None]"
    by (simp add: diff_length diff_first diff_nth) (simp add: diff_def)
  show ?thesis using c t k i e f d by blast
qed

text \<open>The frame of two stocks, once with a column \<open>value\<close> and once as
  \<open>get_portfolio_data\<close> returns it for the market-value study, without one.\<close>

theorem calculate_deltas_is_diff_witness:
  "diff (replicate 3 (Some 7)) = [None, Some 0, Some 0]
   \<and> diff [Some 7] = [None]
   \<and> view_type deltas_params = ''individual_stocks''
   \<and> deltas_frame \<noteq> []
   \<and> metric deltas_params = Some (Single ''market_value_delta'')
   \<and> remove_delta ''market_value_delta'' = ''market_value''
   \<and> float_column ''market_value'' = Some market_value
   \<and> fetched_columns scenario_params = [''date'', ''market_value'', ''stock'']
   \<and> map_sum id (map_prod id (map value))
         (calculate_deltas (fetched_columns scenario_params) deltas_frame deltas_params) =
       Inr ([''date'', ''market_value'', ''stock'', ''value''],
            [None, None, Some 10, Some 0, Some (- 5)])
   \<and> calculate_deltas (fetched_columns scenario_params) deltas_frame
         (deltas_params\<lparr>view_type := ''portfolio_total''\<rparr>) = Inl (KeyError ''value'')
   \<and> map_sum id (map_prod id (map value))
         (calculate_deltas [''date'', ''market_value'', ''stock'', ''value''] deltas_frame
            (deltas_params\<lparr>view_type := ''portfolio_total''\<rparr>)) =
       Inr ([''date'', ''market_value'', ''stock'', ''value''],
            [None, Some 0, Some 0, Some 0, Some 2])
   \<and> length (filter (\<lambda>r. stock r = ''A'') deltas_frame) = 3
   \<and> calculate_deltas (fetched_columns scenario_params) deltas_frame
         (deltas_params\<lparr>metric := Some (Single ''date_delta'')\<rparr>) = Inl TypeError
   \<and> calculate_deltas (fetched_columns scenario_params) deltas_frame
         (deltas_params\<lparr>metric := Some (Single ''daily_pl_delta'')\<rparr>) =
       Inl (KeyError ''daily_pl'')"
proof -
  have fc: "fetched_columns scenario_params = [''date'', ''market_value'', ''stock'']"
    by (simp add: fetched_columns_def scenario_params_def blank_params_def resolve_fields_def
        fromkeys_def raw_fields_def study_type_mapping_def)
  have a: "map_sum id (map_prod id (map value))
         (calculate_deltas [''date'', ''market_value'', ''stock''] deltas_frame deltas_params) =
       Inr ([''date'', ''market_value'', ''stock'', ''value''],
            [None, None, Some 10, Some 0, Some (- 5)])"
    by code_simp
  have b: "map_sum id (map_prod id (map value))
         (calculate_deltas [''date'', ''market_value'', ''stock'', ''value''] deltas_frame
            (deltas_params\<lparr>view_type := ''portfolio_total''\<rparr>)) =
       Inr ([''date'', ''market_value'', ''stock'', ''value''],
            [None, Some 0, Some 0, Some 0, Some 2])"
    by code_simp
  have k: "calculate_deltas [''date'', ''market_value'', ''stock''] deltas_frame
         (deltas_params\<lparr>view_type := ''portfolio_total''\<rparr>) = Inl (KeyError ''value'')"
    "calculate_deltas [''date'', ''market_value'', ''stock''] deltas_frame
         (deltas_params\<lparr>metric := Some (Single ''date_delta'')\<rparr>) = Inl TypeError"
    "calculate_deltas [''date'', ''market_value'', ''stock''] deltas_frame
         (deltas_params\<lparr>metric := Some (Single ''daily_pl_delta'')\<rparr>) =
       Inl (KeyError ''daily_pl'')"
    by code_simp+
  have c: "remove_delta ''market_value_delta'' = ''market_value''"
    "float_column ''market_value'' = Some market_value"
    by (simp_all add: float_column_def)
  have d: "deltas_frame \<noteq> []"
    "length (filter (\<lambda>r. stock r = ''A'') deltas_frame) = 3"
    by (simp_all add: deltas_frame_def blank_row_def)
  show ?thesis
    using calculate_deltas_is_diff[of "replicate 3 (Some 7)" 3 7 "Some 7" deltas_params
            "[''date'', ''market_value'', ''stock'']" deltas_frame "''market_value_delta''"
            market_value]
      calculate_deltas_is_diff[of "[Some 7]" 3 7 "Some 7"
            "deltas_params\<lparr>view_type := ''portfolio_total''\<rparr>"
            "[''date'', ''market_value'', ''stock'', ''value'']" deltas_frame
            "''market_value_delta''" market_value]
      calculate_deltas_is_diff[of "[Some 7]" 3 7 "Some 7"
            "deltas_params\<lparr>metric := Some (Single ''date_delta'')\<rparr>"
            "[''date'', ''market_value'', ''stock'']" deltas_frame "''date_delta''" market_value]
      a b c d k fc
    by (simp add: deltas_params_def blank_params_def numeral_3_eq_3)
qed

section \<open>Dividend statistics\<close>

lemma present_all: "\<forall>c\<in>set cs. c \<noteq> None \<Longrightarrow> present cs = map the cs"
  by (simp add: present_def filter_id_conv)

lemma fold_max_Max: "fold max vs v = Max (set (v # vs))"
  by (simp only: Max.set_eq_fold)

lemma col_max_Max:
  assumes "cs \<noteq> []" and "\<forall>c\<in>set cs. c \<noteq> None"
  shows "col_max cs = Some (Max (set (map the cs)))"
proof -
  obtain c rest where cs: "cs = c # rest" using assms(1) by (cases cs) auto
  have "present cs = the c # map the rest" using present_all[OF assms(2)] cs by simp
  then have "col_max cs = Some (fold max (map the rest) (the c))" by (simp add: col_max_def)
  also have "fold max (map the rest) (the c) = Max (set (the c # map the rest))"
    by (rule fold_max_Max)
  finally show ?thesis using cs by simp
qed

lemma sorted_Max_last: "sorted xs \<Longrightarrow> xs \<noteq> [] \<Longrightarrow> Max (set xs) = last (xs :: 'a::linorder list)"
proof (induction xs)
  case Nil
  then show ?case by simp
next
  case (Cons x xs)
  show ?case
  proof (cases "xs = []")
    case True
    then show ?thesis by simp
  next
    case False
    then have "Max (set xs) = last xs" using Cons by simp
    moreover have "x \<le> last xs" using Cons.prems(1) False by simp
    ultimately show ?thesis using False by (simp add: max_def)
  qed
qed

text \<open>
  Claim C9. In the branch \<open>Dividend Performance\<close> of \<open>update_statistics_table\<close>, for a
  frame whose cumulative-total column (\<open>cash_dividends_total\<close> for the view
  \<open>Cash Dividends\<close>, \<open>drp_shares_total\<close> otherwise) is a running sum that never decreases
  along the rows, the statistic \<open>Total Received\<close> is the maximum of that column, and this
  maximum is the value of the last row; the statistic \<open>Number of Payments\<close> is the number
  of rows whose period column (\<open>cash_dividend\<close> or \<open>drp_share\<close>) is strictly positive.
\<close>

theorem dividend_total_is_last_running_total:
  assumes "study_type p = ''Dividend Performance''" and "data \<noteq> []"
    and "total_col = (if view_type p = ''Cash Dividends'' then cash_dividends_total
                      else drp_shares_total)"
    and "period_col = (if view_type p = ''Cash Dividends'' then cash_dividend else drp_share)"
    and "\<forall>r\<in>set data. total_col r \<noteq> None"
    and "sorted (map (\<lambda>r. the (total_col r)) data)"
  shows "\<exists>stats. update_statistics_table data p = Inr stats
           \<and> map_of stats ''Total Received'' =
               Some (Amount (if view_type p = ''Cash Dividends'' then ''$'' else [])
                            (Some (Max (set (map (\<lambda>r. the (total_col r)) data)))) [])
           \<and> Max (set (map (\<lambda>r. the (total_col r)) data)) = the (total_col (last data))
           \<and> map_of stats ''Number of Payments'' =
               Some (Count (length (filter (\<lambda>r. \<exists>v. period_col r = Some v \<and> 0 < v) data)))"
proof -
  have u: "update_statistics_table data p = Inr (dividend_stats data p)"
    using assms(1,2) by (simp add: update_statistics_table_def)
  have m: "col_max (map total_col data) = Some (Max (set (map (\<lambda>r. the (total_col r)) data)))"
    using col_max_Max[of "map total_col data"] assms(2,5) by (simp add: comp_def)
  have l: "Max (set (map (\<lambda>r. the (total_col r)) data)) = the (total_col (last data))"
    using sorted_Max_last[OF assms(6)] assms(2) by (simp add: last_map)
  have f: "(\<lambda>r. case period_col r of None \<Rightarrow> False | Some v \<Rightarrow> 0 < v) =
           (\<lambda>r. \<exists>v. period_col r = Some v \<and> 0 < v)"
    by (auto split: option.splits)
  have t: "map_of (dividend_stats data p) ''Total Received'' =
           Some (Amount (if view_type p = ''Cash Dividends'' then ''$'' else [])
                  (col_max (map total_col data)) [])"
    using assms(3) by (simp add: dividend_stats_def Let_def)
  have n: "map_of (dividend_stats data p) ''Number of Payments'' =
           Some (Count (length (filter (\<lambda>r. case period_col r of None \<Rightarrow> False
                                              | Some v \<Rightarrow> 0 < v) data)))"
    using assms(4) by (simp add: dividend_stats_def Let_def)
  show ?thesis using u m l t n unfolding f by simp
qed


lemma dividend_frame_stats:
  "update_statistics_table dividend_frame dividend_stats_params =
     Inr [(''Total Received'', Amount ''$'' (Some 10) []),
          (''Average Per Period'', Amount ''$'' (Some (10 / 3)) []),
          (''Largest Single Payment'', Amount ''$'' (Some 5) []),
          (''Number of Payments'', Count 2)]"
  by (simp add: update_statistics_table_def dividend_stats_def dividend_stats_params_def
      blank_params_def dividend_frame_def blank_row_def col_max_def col_mean_def present_def
      Let_def)

theorem dividend_total_is_last_running_total_witness:
  "study_type dividend_stats_params = ''Dividend Performance''
   \<and> dividend_frame \<noteq> []
   \<and> map (\<lambda>r. the (cash_dividends_total r)) dividend_frame = [5, 5, 10]
   \<and> sorted (map (\<lambda>r. the (cash_dividends_total r)) dividend_frame)
   \<and> update_statistics_table dividend_frame dividend_stats_params =
       Inr [(''Total Received'', Amount ''$'' (Some 10) []),
            (''Average Per Period'', Amount ''$'' (Some (10 / 3)) []),
            (''Largest Single Payment'', Amount ''$'' (Some 5) []),
            (''Number of Payments'', Count 2)]
   \<and> Max (set (map (\<lambda>r. the (cash_dividends_total r)) dividend_frame)) = 10
   \<and> the (cash_dividends_total (last dividend_frame)) = 10
   \<and> length (filter (\<lambda>r. \<exists>v. cash_dividend r = Some v \<and> 0 < v) dividend_frame) = 2"
proof -
  have st: "study_type dividend_stats_params = ''Dividend Performance''"
    and vt: "view_type dividend_stats_params = ''Cash Dividends''"
    by (simp_all add: dividend_stats_params_def blank_params_def)
  have ne: "dividend_frame \<noteq> []" by (simp add: dividend_frame_def)
  have tc: "cash_dividends_total =
            (if view_type dividend_stats_params = ''Cash Dividends'' then cash_dividends_total
             else drp_shares_total)"
    and pc: "cash_dividend =
            (if view_type dividend_stats_params = ''Cash Dividends'' then cash_dividend
             else drp_share)"
    using vt by simp_all
  have vals: "map (\<lambda>r. the (cash_dividends_total r)) dividend_frame = [5, 5, 10]"
    by (simp add: dividend_frame_def blank_row_def)
  have pr: "\<forall>r\<in>set dividend_frame. cash_dividends_total r \<noteq> None"
    by (simp add: dividend_frame_def blank_row_def)
  have so: "sorted (map (\<lambda>r. the (cash_dividends_total r)) dividend_frame)"
    unfolding vals by simp
  have la: "the (cash_dividends_total (last dividend_frame)) = 10"
    by (simp add: dividend_frame_def blank_row_def)
  show ?thesis
    using dividend_total_is_last_running_total[OF st ne tc pc pr so]
      st ne vals so la dividend_frame_stats
    by auto
qed

section \<open>Zeroing a cumulative series at its start\<close>







lemma profitability_metric_zero [simp]:
  "profitability_metric (p\<lparr>zero_at_start := z\<rparr>) = profitability_metric p"
  by (simp add: profitability_metric_def)

lemma percentage_series_zero [simp]:
  "percentage_series data (p\<lparr>zero_at_start := z\<rparr>) = percentage_series data p"
  by (simp add: percentage_series_def)







lemma returns_frame_cumulative:
  "plot_profitability returns_frame (total_params ''cumulative'' ''dollar_value'' False) =
     Inr (Lines [(''Portfolio Total'', [738886, 738887, 738888], [Fin 10, Fin 15, Fin 20])])"
  by code_simp





section \<open>Unstacked tables\<close>

lemma unstack_grid:
  "distinct (map (\<lambda>r. (date r, stock r)) data) \<Longrightarrow>
   unstack col data = Inr (grid (lookup_cell col data) data)"
  by (simp add: unstack_def grid_def)

lemma unstack_error:
  "\<not> distinct (map (\<lambda>r. (date r, stock r)) data) \<Longrightarrow> unstack col data = Inl ValueError"
  by (simp add: unstack_def)

lemma map_of_zip_map:
  "map_of (zip xs (map f xs)) x = (if x \<in> set xs then Some (f x) else None)"
  by (induction xs) auto

lemma map_of_labelled:
  "map_of (map (\<lambda>s. (s, g s)) ss) s = (if s \<in> set ss then Some (g s) else None)"
  by (induction ss) auto

lemma wide_cell_grid:
  "wide_cell (grid f data) s d =
     (if s \<in> stock ` set data \<and> d \<in> date ` set data then Some (f d s) else None)"
  by (simp add: wide_cell_def grid_def map_of_labelled map_of_zip_map)

lemma add_filled_grid:
  "add_filled (grid f data) (grid g data) =
   grid (\<lambda>d s. Some (fillna0 (f d s) + fillna0 (g d s))) data"
proof -
  have cols: "\<And>ds ss. map2 (\<lambda>(s, c) (s', c'). (s, map2 (\<lambda>x y. Some (fillna0 x + fillna0 y)) c c'))
          (map (\<lambda>s. (s, map (\<lambda>d. f d s) ds)) ss) (map (\<lambda>s. (s, map (\<lambda>d. g d s) ds)) ss) =
        map (\<lambda>s. (s, map (\<lambda>d. Some (fillna0 (f d s) + fillna0 (g d s))) ds)) ss"
  proof -
    fix ds :: "int list" and ss :: "string list"
    have inner: "\<And>s. map2 (\<lambda>x y. Some (fillna0 x + fillna0 y)) (map (\<lambda>d. f d s) ds) (map (\<lambda>d. g d s) ds)
         = map (\<lambda>d. Some (fillna0 (f d s) + fillna0 (g d s))) ds"
      by (induction ds) simp_all
    show "map2 (\<lambda>(s, c) (s', c'). (s, map2 (\<lambda>x y. Some (fillna0 x + fillna0 y)) c c'))
          (map (\<lambda>s. (s, map (\<lambda>d. f d s) ds)) ss) (map (\<lambda>s. (s, map (\<lambda>d. g d s) ds)) ss) =
        map (\<lambda>s. (s, map (\<lambda>d. Some (fillna0 (f d s) + fillna0 (g d s))) ds)) ss"
      by (induction ss) (simp_all add: inner)
  qed
  show ?thesis by (simp add: add_filled_def grid_def cols)
qed

lemma find_key:
  "distinct (map (\<lambda>r. (date r, stock r)) data) \<Longrightarrow> r \<in> set data \<Longrightarrow>
   find (\<lambda>r'. date r' = date r \<and> stock r' = stock r) data = Some r"
  by (induction data) (auto simp add: image_iff)

lemma lookup_cell_row:
  "distinct (map (\<lambda>r. (date r, stock r)) data) \<Longrightarrow> r \<in> set data \<Longrightarrow>
   lookup_cell col data (date r) (stock r) = col r"
  by (simp add: lookup_cell_def find_key)

lemma lookup_cell_absent:
  "\<forall>r\<in>set data. \<not> (date r = d \<and> stock r = s) \<Longrightarrow> lookup_cell col data d s = None"
proof -
  assume "\<forall>r\<in>set data. \<not> (date r = d \<and> stock r = s)"
  then have "find (\<lambda>r. date r = d \<and> stock r = s) data = None"
    by (induction data) auto
  then show ?thesis by (simp add: lookup_cell_def)
qed


section \<open>Combined dividends\<close>

lemma dividend_table_combined:
  assumes "distinct (map (\<lambda>r. (date r, stock r)) data)" and "chart_type p = ''combined''"
  shows "dividend_table data p =
     Inr (grid (\<lambda>d s. Some (fillna0 (lookup_cell (if time_period p = ''cumulative''
                                                     then cash_dividends_total else cash_dividend)
                                         data d s)
                        + fillna0 (lookup_cell (if time_period p = ''cumulative''
                                                then drp_value_total else drp_value)
                                         data d s))) data)"
  using assms by (simp add: dividend_table_def unstack_grid add_filled_grid)

lemma dividend_table_drp:
  assumes "distinct (map (\<lambda>r. (date r, stock r)) data)" and "chart_type p = ''drp''"
  shows "dividend_table data p =
     Inr (grid (lookup_cell (if time_period p = ''cumulative'' then drp_value_total
                             else drp_value) data) data)"
  using assms by (simp add: dividend_table_def unstack_grid)

text \<open>
  Claim C5. For a frame without repeated (date, stock) keys, the DRP dollar value that
  \<open>plot_dividends\<close> tabulates for a row is \<open>drp_share * close_price\<close> for the period view
  and \<open>drp_shares_total * close_price\<close> for the cumulative view; and the combined table
  holds, at the date and stock of every row, the cash value with missing taken as zero
  plus that DRP dollar value with missing taken as zero. Its index is every date of the
  frame, and at a date where a stock has no row both sides are missing and the combined
  value is 0.
\<close>

theorem combined_dividends_add_filled:
  assumes "distinct (map (\<lambda>r. (date r, stock r)) data)"
    and "cash = (if time_period p = ''cumulative'' then cash_dividends_total else cash_dividend)"
    and "shares = (if time_period p = ''cumulative'' then drp_shares_total else drp_share)"
  shows "(chart_type p = ''drp'' \<longrightarrow>
           (\<exists>table. dividend_table data p = Inr table
              \<and> (\<forall>r\<in>set data.
                    wide_cell table (stock r) (date r) =
                      Some (cell_mul (shares r) (close_price r)))))
         \<and> (chart_type p = ''combined'' \<longrightarrow>
           (\<exists>table. dividend_table data p = Inr table
              \<and> w_index table = sort (remdups (map date data))
              \<and> (\<forall>r\<in>set data.
                    wide_cell table (stock r) (date r) =
                      Some (Some (fillna0 (cash r)
                                  + fillna0 (cell_mul (shares r) (close_price r)))))
              \<and> (\<forall>d\<in>date ` set data. \<forall>s\<in>stock ` set data.
                    (\<forall>r\<in>set data. \<not> (date r = d \<and> stock r = s)) \<longrightarrow>
                    wide_cell table s d = Some (Some 0))))"
proof (intro conjI impI)
  let ?v = "if time_period p = ''cumulative'' then drp_value_total else drp_value"
  have v: "\<And>r. ?v r = cell_mul (shares r) (close_price r)"
    using assms(3) by (simp add: drp_value_def drp_value_total_def)
  assume "chart_type p = ''drp''"
  then have t: "dividend_table data p = Inr (grid (lookup_cell ?v data) data)"
    using assms(1) by (simp add: dividend_table_drp)
  have "\<forall>r\<in>set data. wide_cell (grid (lookup_cell ?v data) data) (stock r) (date r) =
                      Some (cell_mul (shares r) (close_price r))"
  proof
    fix r assume m: "r \<in> set data"
    have "lookup_cell ?v data (date r) (stock r) = cell_mul (shares r) (close_price r)"
      using lookup_cell_row[OF assms(1) m, of ?v] v by simp
    then show "wide_cell (grid (lookup_cell ?v data) data) (stock r) (date r) =
                      Some (cell_mul (shares r) (close_price r))"
      using m by (simp add: wide_cell_grid)
  qed
  then show "\<exists>table. dividend_table data p = Inr table
              \<and> (\<forall>r\<in>set data.
                    wide_cell table (stock r) (date r) =
                      Some (cell_mul (shares r) (close_price r)))"
    using t by blast
next
  assume cb: "chart_type p = ''combined''"
  let ?c = "if time_period p = ''cumulative'' then cash_dividends_total else cash_dividend"
  let ?v = "if time_period p = ''cumulative'' then drp_value_total else drp_value"
  let ?t = "grid (\<lambda>d s. Some (fillna0 (lookup_cell ?c data d s)
                           + fillna0 (lookup_cell ?v data d s))) data"
  have t: "dividend_table data p = Inr ?t"
    using assms(1) cb by (rule dividend_table_combined)
  have i: "w_index ?t = sort (remdups (map date data))" by (simp add: grid_def)
  have v: "\<And>r. ?v r = cell_mul (shares r) (close_price r)"
    using assms(3) by (simp add: drp_value_def drp_value_total_def)
  have r: "\<forall>r\<in>set data.
                 wide_cell ?t (stock r) (date r) =
                   Some (Some (fillna0 (cash r)
                               + fillna0 (cell_mul (shares r) (close_price r))))"
  proof
    fix r assume m: "r \<in> set data"
    have "lookup_cell ?c data (date r) (stock r) = cash r"
      using lookup_cell_row[OF assms(1) m, of ?c] assms(2) by simp
    moreover have "lookup_cell ?v data (date r) (stock r) = cell_mul (shares r) (close_price r)"
      using lookup_cell_row[OF assms(1) m, of ?v] v by simp
    ultimately show "wide_cell ?t (stock r) (date r) =
                   Some (Some (fillna0 (cash r)
                               + fillna0 (cell_mul (shares r) (close_price r))))"
      using m by (simp add: wide_cell_grid)
  qed
  have a: "\<forall>d\<in>date ` set data. \<forall>s\<in>stock ` set data.
                 (\<forall>r\<in>set data. \<not> (date r = d \<and> stock r = s)) \<longrightarrow>
                 wide_cell ?t s d = Some (Some 0)"
  proof (intro ballI impI)
    fix d s assume d: "d \<in> date ` set data" and s: "s \<in> stock ` set data"
      and n: "\<forall>r\<in>set data. \<not> (date r = d \<and> stock r = s)"
    have "lookup_cell ?c data d s = None" "lookup_cell ?v data d s = None"
      using n by (rule lookup_cell_absent)+
    then show "wide_cell ?t s d = Some (Some 0)"
      using d s by (simp add: wide_cell_grid fillna0_def)
  qed
  show "\<exists>table. dividend_table data p = Inr table
              \<and> w_index table = sort (remdups (map date data))
              \<and> (\<forall>r\<in>set data.
                    wide_cell table (stock r) (date r) =
                      Some (Some (fillna0 (cash r)
                                  + fillna0 (cell_mul (shares r) (close_price r)))))
              \<and> (\<forall>d\<in>date ` set data. \<forall>s\<in>stock ` set data.
                    (\<forall>r\<in>set data. \<not> (date r = d \<and> stock r = s)) \<longrightarrow>
                    wide_cell table s d = Some (Some 0))"
    using t i r a by blast
qed

lemma dividend_frame_tables:
  "dividend_table dividend_frame (dividend_params ''drp'' ''daily'' ''individual_stocks'') =
     Inr \<lparr>w_index = [738886, 738887, 738888],
          w_columns = [(''A'', [Some 0, Some 2, Some 0])]\<rparr>"
  "dividend_table dividend_frame (dividend_params ''combined'' ''daily'' ''individual_stocks'') =
     Inr \<lparr>w_index = [738886, 738887, 738888],
          w_columns = [(''A'', [Some 5, Some 2, Some 5])]\<rparr>"
  "dividend_table dividend_frame (dividend_params ''combined'' ''cumulative'' ''individual_stocks'') =
     Inr \<lparr>w_index = [738886, 738887, 738888],
          w_columns = [(''A'', [Some 5, Some 7, Some 13])]\<rparr>"
  "plot_dividends dividend_frame (dividend_params ''combined'' ''daily'' ''individual_stocks'') =
     Inr (Lines [(''A'', [738886, 738887, 738888], [Fin 5, Fin 2, Fin 5])])"
  by code_simp+

theorem combined_dividends_add_filled_witness:
  "distinct (map (\<lambda>r. (date r, stock r)) dividend_frame)
   \<and> map cash_dividend dividend_frame = [Some 5, Some 0, Some 5]
   \<and> map (\<lambda>r. cell_mul (drp_share r) (close_price r)) dividend_frame = [Some 0, Some 2, Some 0]
   \<and> dividend_table dividend_frame (dividend_params ''drp'' ''daily'' ''individual_stocks'') =
       Inr \<lparr>w_index = [738886, 738887, 738888],
            w_columns = [(''A'', [Some 0, Some 2, Some 0])]\<rparr>
   \<and> dividend_table dividend_frame (dividend_params ''combined'' ''daily'' ''individual_stocks'') =
       Inr \<lparr>w_index = [738886, 738887, 738888],
            w_columns = [(''A'', [Some 5, Some 2, Some 5])]\<rparr>
   \<and> wide_cell \<lparr>w_index = [738886, 738887, 738888],
                  w_columns = [(''A'', [Some 5, Some 2, Some 5])]\<rparr> ''A'' 738887 = Some (Some 2)
   \<and> dividend_table dividend_frame
         (dividend_params ''combined'' ''cumulative'' ''individual_stocks'') =
       Inr \<lparr>w_index = [738886, 738887, 738888],
            w_columns = [(''A'', [Some 5, Some 7, Some 13])]\<rparr>
   \<and> plot_dividends dividend_frame (dividend_params ''combined'' ''daily'' ''individual_stocks'') =
       Inr (Lines [(''A'', [738886, 738887, 738888], [Fin 5, Fin 2, Fin 5])])"
proof -
  have d: "distinct (map (\<lambda>r. (date r, stock r)) dividend_frame)"
    by (simp add: dividend_frame_def blank_row_def)
  have c: "map cash_dividend dividend_frame = [Some 5, Some 0, Some 5]"
    "map (\<lambda>r. cell_mul (drp_share r) (close_price r)) dividend_frame = [Some 0, Some 2, Some 0]"
    by (simp_all add: dividend_frame_def blank_row_def cell_mul_def)
  have w: "wide_cell \<lparr>w_index = [738886, 738887, 738888],
                  w_columns = [(''A'', [Some 5, Some 2, Some 5])]\<rparr> ''A'' 738887 = Some (Some 2)"
    using combined_dividends_add_filled[OF d, of cash_dividend
            "dividend_params ''combined'' ''daily'' ''individual_stocks''" drp_share]
      dividend_frame_tables(2)
    by (simp add: dividend_params_def blank_params_def dividend_frame_def blank_row_def
        cell_mul_def fillna0_def)
  show ?thesis using d c w dividend_frame_tables by simp
qed

section \<open>Time alignment\<close>

lemma ffill_from_length: "length (ffill_from l xs) = length xs"
  by (induction l xs rule: ffill_from.induct) simp_all

lemma ffill_from_unset:
  "i < length xs \<Longrightarrow> \<forall>k\<le>i. xs ! k = None \<Longrightarrow> ffill_from l xs ! i = l"
proof (induction xs arbitrary: i)
  case Nil
  then show ?case by simp
next
  case (Cons x xs)
  have x: "x = None" using Cons.prems(2) by (metis le0 nth_Cons_0)
  show ?case
  proof (cases i)
    case 0
    then show ?thesis using x by simp
  next
    case (Suc i')
    have "\<forall>k\<le>i'. xs ! k = None"
      using Cons.prems(2) Suc by (metis Suc_le_mono nth_Cons_Suc)
    then show ?thesis using Cons.IH[of i'] Cons.prems(1) Suc x by simp
  qed
qed

lemma ffill_from_latest:
  "j \<le> i \<Longrightarrow> i < length xs \<Longrightarrow> xs ! j = Some v \<Longrightarrow>
   \<forall>k. j < k \<and> k \<le> i \<longrightarrow> xs ! k = None \<Longrightarrow> ffill_from l xs ! i = Some v"
proof (induction xs arbitrary: i j l)
  case Nil
  then show ?case by simp
next
  case (Cons x xs)
  show ?case
  proof (cases j)
    case 0
    then have x: "x = Some v" using Cons.prems(3) by simp
    show ?thesis
    proof (cases i)
      case 0
      then show ?thesis using x by simp
    next
      case (Suc i')
      have "\<forall>k\<le>i'. xs ! k = None"
        using Cons.prems(4) Suc \<open>j = 0\<close> by (metis Suc_le_mono nth_Cons_Suc zero_less_Suc)
      then have "ffill_from (Some v) xs ! i' = Some v"
        using ffill_from_unset[of i' xs "Some v"] Cons.prems(2) Suc by simp
      then show ?thesis using x Suc by simp
    qed
  next
    case (Suc j')
    then obtain i' where i: "i = Suc i'" using Cons.prems(1) by (cases i) auto
    have a: "j' \<le> i'" "i' < length xs" "xs ! j' = Some v"
      using Cons.prems Suc i by simp_all
    have b: "\<forall>k. j' < k \<and> k \<le> i' \<longrightarrow> xs ! k = None"
      using Cons.prems(4) Suc i by (metis Suc_le_mono Suc_less_eq nth_Cons_Suc)
    have "\<And>l'. ffill_from l' xs ! i' = Some v"
      using Cons.IH[OF a b] .
    then show ?thesis using i by (cases x) simp_all
  qed
qed

lemma sorted_hd_Min: "sorted xs \<Longrightarrow> xs \<noteq> [] \<Longrightarrow> hd xs = Min (set (xs :: 'a::linorder list))"
  by (cases xs) (auto intro!: Min_eqI[symmetric])

lemma dates_bounds:
  assumes "data \<noteq> []"
  shows "sort (remdups (map date data)) \<noteq> []"
    and "hd (sort (remdups (map date data))) = Min (date ` set data)"
    and "last (sort (remdups (map date data))) = Max (date ` set data)"
proof -
  let ?ds = "sort (remdups (map date data))"
  show ne: "?ds \<noteq> []" using assms by (metis length_0_conv length_remdups_eq length_sort list.simps(8) map_is_Nil_conv remdups_eq_nil_iff)
  have s: "sorted ?ds" by simp
  have e: "set ?ds = date ` set data" by simp
  show "hd ?ds = Min (date ` set data)" using sorted_hd_Min[OF s ne] e by simp
  show "last ?ds = Max (date ` set data)" using sorted_Max_last[OF s ne] e by simp
qed


lemma asfreq_grid:
  assumes "data \<noteq> []"
  shows "asfreq_D (grid f data) =
     \<lparr>w_index = [Min (date ` set data)..Max (date ` set data)],
      w_columns = map (\<lambda>s. (s, map (\<lambda>d. if d \<in> date ` set data then f d s else None)
                                     [Min (date ` set data)..Max (date ` set data)]))
                      (sort (remdups (map stock data)))\<rparr>"
proof -
  let ?ds = "sort (remdups (map date data))"
  obtain d rest where dr: "?ds = d # rest"
    using dates_bounds(1)[OF assms] by (cases ?ds) auto
  have lo: "d = Min (date ` set data)" using dates_bounds(2)[OF assms] dr by simp
  have hi: "last (d # rest) = Max (date ` set data)" using dates_bounds(3)[OF assms] dr by simp
  have re: "\<And>s days. reindex_col ?ds (map (\<lambda>d. f d s) ?ds) days =
            map (\<lambda>d. if d \<in> date ` set data then f d s else None) days"
    by (simp add: reindex_col_def map_of_zip_map)
  have "asfreq_D (grid f data) =
        \<lparr>w_index = [d..last (d # rest)],
         w_columns = map (\<lambda>(s, c). (s, reindex_col ?ds c [d..last (d # rest)]))
                         (map (\<lambda>s. (s, map (\<lambda>d. f d s) ?ds)) (sort (remdups (map stock data))))\<rparr>"
    using dr by (simp add: asfreq_D_def grid_def del: last.simps)
  then show ?thesis
    unfolding lo hi[unfolded lo] by (simp add: re comp_def del: last.simps)
qed

lemma lookup_cell_no_date: "d \<notin> date ` set data \<Longrightarrow> lookup_cell col data d s = None"
  by (rule lookup_cell_absent) auto

lemma align_shape:
  assumes "distinct (map (\<lambda>r. (date r, stock r)) data)" and "data \<noteq> []"
  shows "align col data =
     Inr \<lparr>w_index = [Min (date ` set data)..Max (date ` set data)],
          w_columns = map (\<lambda>s. (s, ffill (map (\<lambda>d. lookup_cell col data d s)
                                               [Min (date ` set data)..Max (date ` set data)])))
                          (sort (remdups (map stock data)))\<rparr>"
proof -
  have e: "(\<lambda>d s. if d \<in> date ` set data then lookup_cell col data d s else None) =
           (\<lambda>d s. lookup_cell col data d s)"
    by (auto simp add: lookup_cell_no_date fun_eq_iff)
  have "\<And>s. (\<lambda>d. if d \<in> date ` set data then lookup_cell col data d s else None) =
           (\<lambda>d. lookup_cell col data d s)"
    by (auto simp add: lookup_cell_no_date fun_eq_iff)
  then show ?thesis
    using assms(1) by (simp add: align_def unstack_grid asfreq_grid[OF assms(2)] ffill_wide_def comp_def)
qed

lemma ffill_length: "length (ffill xs) = length xs"
  by (simp add: ffill_def ffill_from_length)

lemma map_of_zip_upto:
  assumes "length ys = length [lo..hi]" and "lo \<le> D" and "D \<le> hi"
  shows "map_of (zip [lo..hi] ys) D = Some (ys ! nat (D - lo))"
proof -
  have i: "nat (D - lo) < length ys" using assms by simp
  have "[lo..hi] ! nat (D - lo) = D" using assms(2,3) by simp
  then show ?thesis
    using map_of_zip_nth[of "[lo..hi]" ys "nat (D - lo)"] assms(1) i by simp
qed

lemma wide_cell_aligned:
  assumes "s \<in> stock ` set data" and "lo \<le> D" and "D \<le> hi"
  shows "wide_cell \<lparr>w_index = [lo..hi],
                     w_columns = map (\<lambda>s. (s, ffill (map (g s) [lo..hi])))
                                     (sort (remdups (map stock data)))\<rparr> s D =
         Some (ffill (map (g s) [lo..hi]) ! nat (D - lo))"
  using assms by (simp add: wide_cell_def map_of_labelled map_of_zip_upto ffill_length)


lemma lookup_cell_some:
  "lookup_cell col data d s = Some v \<Longrightarrow>
   \<exists>r\<in>set data. date r = d \<and> stock r = s \<and> col r = Some v"
  by (auto simp add: lookup_cell_def find_Some_iff split: option.splits)

lemma nth_map_upto:
  "lo + int k \<le> hi \<Longrightarrow> map g [lo..hi] ! k = g (lo + int k)"
  by (simp add: nth_map)

lemma aligned_unset:
  assumes "lo \<le> D" and "D \<le> hi"
    and "\<forall>r\<in>set data. stock r = s \<and> date r \<le> D \<longrightarrow> col r = None"
  shows "ffill (map (\<lambda>d. lookup_cell col data d s) [lo..hi]) ! nat (D - lo) = None"
proof -
  let ?xs = "map (\<lambda>d. lookup_cell col data d s) [lo..hi]"
  have len: "nat (D - lo) < length ?xs" using assms(1,2) by simp
  have "\<forall>k\<le>nat (D - lo). ?xs ! k = None"
  proof (intro allI impI)
    fix k assume k: "k \<le> nat (D - lo)"
    then have b: "lo + int k \<le> D" using assms(1) by linarith
    then have "lo + int k \<le> hi" using assms(2) by linarith
    then have e: "?xs ! k = lookup_cell col data (lo + int k) s"
      by (rule nth_map_upto)
    show "?xs ! k = None"
    proof (cases "lookup_cell col data (lo + int k) s")
      case None
      then show ?thesis using e by simp
    next
      case (Some v)
      then obtain r where "r \<in> set data" "date r = lo + int k" "stock r = s" "col r = Some v"
        using lookup_cell_some by blast
      then show ?thesis using assms(3) b by auto
    qed
  qed
  then show ?thesis unfolding ffill_def using len by (rule ffill_from_unset[rotated])
qed

lemma aligned_latest:
  assumes "distinct (map (\<lambda>r. (date r, stock r)) data)"
    and "lo \<le> date r" and "D \<le> hi"
    and "r \<in> set data" and "stock r = s" and "date r \<le> D" and "col r = Some v"
    and "\<forall>r'\<in>set data. stock r' = s \<and> date r < date r' \<and> date r' \<le> D \<longrightarrow> col r' = None"
  shows "ffill (map (\<lambda>d. lookup_cell col data d s) [lo..hi]) ! nat (D - lo) = Some v"
proof -
  let ?xs = "map (\<lambda>d. lookup_cell col data d s) [lo..hi]"
  let ?j = "nat (date r - lo)" and ?i = "nat (D - lo)"
  have ji: "?j \<le> ?i" using assms(6) by simp
  have len: "?i < length ?xs" using assms(2,3,6) by simp
  have "lo + int ?j \<le> hi" using assms(2,3,6) by linarith
  then have "?xs ! ?j = lookup_cell col data (lo + int ?j) s"
    by (rule nth_map_upto)
  then have "?xs ! ?j = lookup_cell col data (date r) s"
    using assms(2) by simp
  then have xj: "?xs ! ?j = Some v"
    using lookup_cell_row[OF assms(1,4), of col] assms(5,7) by simp
  have gap: "\<forall>k. ?j < k \<and> k \<le> ?i \<longrightarrow> ?xs ! k = None"
  proof (intro allI impI)
    fix k assume k: "?j < k \<and> k \<le> ?i"
    then have b: "date r < lo + int k" "lo + int k \<le> D" using assms(2,6) by linarith+
    then have "lo + int k \<le> hi" using assms(3) by linarith
    then have e: "?xs ! k = lookup_cell col data (lo + int k) s"
      by (rule nth_map_upto)
    show "?xs ! k = None"
    proof (cases "lookup_cell col data (lo + int k) s")
      case None
      then show ?thesis using e by simp
    next
      case (Some u)
      then obtain r' where "r' \<in> set data" "date r' = lo + int k" "stock r' = s" "col r' = Some u"
        using lookup_cell_some by blast
      then show ?thesis using assms(8) b by auto
    qed
  qed
  show ?thesis unfolding ffill_def using ji len xj gap by (rule ffill_from_latest)
qed


lemma sum_axis1_labelled:
  assumes "i < length idx"
  shows "sum_axis1 \<lparr>w_index = idx, w_columns = map (\<lambda>s. (s, c s)) (sort (remdups ss))\<rparr> ! i =
         (\<Sum>s\<in>set ss. fillna0 (c s ! i))"
proof -
  have "sum_axis1 \<lparr>w_index = idx, w_columns = map (\<lambda>s. (s, c s)) (sort (remdups ss))\<rparr> ! i =
        sum_list (map (\<lambda>s. fillna0 (c s ! i)) (sort (remdups ss)))"
    using assms by (simp add: sum_axis1_def nansum_def comp_def)
  also have "\<dots> = (\<Sum>s\<in>set (sort (remdups ss)). fillna0 (c s ! i))"
    by (rule sum_list_distinct_conv_sum_set) simp
  finally show ?thesis by simp
qed

text \<open>
  Claim C1. For every frame without repeated (date, stock) keys, the aligned table
  (one column per stock, reindexed to every calendar day from the first to the last date
  of the frame, forward-filled) holds for a stock on day D the most recent value
  observed for that stock on or before D, and a missing cell, not zero, on the days
  before the first observation of the stock. The portfolio total of a day is the sum of
  the cells of that day, missing cells skipped. In the scenario of the specification the
  columns are A = 100, 110 and B = 50, 50, and the totals are 150, 160.
\<close>

theorem aligned_cell_is_latest_observation:
  assumes "distinct (map (\<lambda>r. (date r, stock r)) data)" and "data \<noteq> []"
  shows "\<exists>w. align col data = Inr w
           \<and> w_index w = [Min (date ` set data)..Max (date ` set data)]
           \<and> map fst (w_columns w) = sort (remdups (map stock data))
           \<and> (\<forall>s\<in>stock ` set data. \<forall>D\<in>{Min (date ` set data)..Max (date ` set data)}.
                 ((\<forall>r\<in>set data. stock r = s \<and> date r \<le> D \<longrightarrow> col r = None) \<longrightarrow>
                    wide_cell w s D = Some None)
                 \<and> (\<forall>r\<in>set data. \<forall>v.
                       stock r = s \<and> date r \<le> D \<and> col r = Some v
                       \<and> (\<forall>r'\<in>set data. stock r' = s \<and> date r < date r' \<and> date r' \<le> D
                                        \<longrightarrow> col r' = None) \<longrightarrow>
                       wide_cell w s D = Some (Some v)))
           \<and> (\<forall>D\<in>{Min (date ` set data)..Max (date ` set data)}.
                 sum_axis1 w ! nat (D - Min (date ` set data)) =
                 (\<Sum>s\<in>stock ` set data. case wide_cell w s D of Some (Some v) \<Rightarrow> v | _ \<Rightarrow> 0))"
proof -
  let ?lo = "Min (date ` set data)" and ?hi = "Max (date ` set data)"
  let ?c = "\<lambda>s. ffill (map (\<lambda>d. lookup_cell col data d s) [?lo..?hi])"
  let ?w = "\<lparr>w_index = [?lo..?hi],
             w_columns = map (\<lambda>s. (s, ?c s)) (sort (remdups (map stock data)))\<rparr>"
  have a: "align col data = Inr ?w" using assms by (rule align_shape)
  have cellw: "\<And>s D. s \<in> stock ` set data \<Longrightarrow> ?lo \<le> D \<Longrightarrow> D \<le> ?hi \<Longrightarrow>
                wide_cell ?w s D = Some (?c s ! nat (D - ?lo))"
    using wide_cell_aligned[of _ data ?lo _ ?hi "\<lambda>s d. lookup_cell col data d s"] by simp
  have lo: "\<And>r. r \<in> set data \<Longrightarrow> ?lo \<le> date r" by simp
  have cells: "\<forall>s\<in>stock ` set data. \<forall>D\<in>{?lo..?hi}.
                 ((\<forall>r\<in>set data. stock r = s \<and> date r \<le> D \<longrightarrow> col r = None) \<longrightarrow>
                    wide_cell ?w s D = Some None)
                 \<and> (\<forall>r\<in>set data. \<forall>v.
                       stock r = s \<and> date r \<le> D \<and> col r = Some v
                       \<and> (\<forall>r'\<in>set data. stock r' = s \<and> date r < date r' \<and> date r' \<le> D
                                        \<longrightarrow> col r' = None) \<longrightarrow>
                       wide_cell ?w s D = Some (Some v))"
  proof (intro ballI conjI impI allI)
    fix s D
    assume s: "s \<in> stock ` set data" and D: "D \<in> {?lo..?hi}"
      and n: "\<forall>r\<in>set data. stock r = s \<and> date r \<le> D \<longrightarrow> col r = None"
    have "?c s ! nat (D - ?lo) = None" using D n by (intro aligned_unset) simp_all
    then show "wide_cell ?w s D = Some None" using cellw[OF s] D by simp
  next
    fix s D r v
    assume s: "s \<in> stock ` set data" and D: "D \<in> {?lo..?hi}" and r: "r \<in> set data"
      and h: "stock r = s \<and> date r \<le> D \<and> col r = Some v
              \<and> (\<forall>r'\<in>set data. stock r' = s \<and> date r < date r' \<and> date r' \<le> D
                               \<longrightarrow> col r' = None)"
    have "?c s ! nat (D - ?lo) = Some v"
      using assms(1) lo[OF r] D r h by (intro aligned_latest[where r = r]) simp_all
    then show "wide_cell ?w s D = Some (Some v)" using cellw[OF s] D by simp
  qed
  have sums: "\<forall>D\<in>{?lo..?hi}. sum_axis1 ?w ! nat (D - ?lo) =
                 (\<Sum>s\<in>stock ` set data. case wide_cell ?w s D of Some (Some v) \<Rightarrow> v | _ \<Rightarrow> 0)"
  proof
    fix D assume D: "D \<in> {?lo..?hi}"
    then have i: "nat (D - ?lo) < length [?lo..?hi]" by simp
    have "sum_axis1 ?w ! nat (D - ?lo) = (\<Sum>s\<in>set (map stock data). fillna0 (?c s ! nat (D - ?lo)))"
      using i by (rule sum_axis1_labelled)
    also have "\<dots> = (\<Sum>s\<in>stock ` set data. case wide_cell ?w s D of Some (Some v) \<Rightarrow> v | _ \<Rightarrow> 0)"
    proof (rule sum.cong)
      show "set (map stock data) = stock ` set data" by simp
    next
      fix s assume "s \<in> stock ` set data"
      then have "wide_cell ?w s D = Some (?c s ! nat (D - ?lo))" using cellw D by simp
      then show "fillna0 (?c s ! nat (D - ?lo)) =
                 (case wide_cell ?w s D of Some (Some v) \<Rightarrow> v | _ \<Rightarrow> 0)"
        by (simp add: fillna0_def split: option.splits)
    qed
    finally show "sum_axis1 ?w ! nat (D - ?lo) =
                 (\<Sum>s\<in>stock ` set data. case wide_cell ?w s D of Some (Some v) \<Rightarrow> v | _ \<Rightarrow> 0)" .
  qed
  have cols: "map fst (w_columns ?w) = sort (remdups (map stock data))" by (simp add: comp_def)
  have idx: "w_index ?w = [?lo..?hi]" by simp
  show ?thesis using a idx cols cells sums by blast
qed


theorem aligned_cell_is_latest_observation_witness:
  "distinct (map (\<lambda>r. (date r, stock r)) scenario_frame)
   \<and> scenario_frame \<noteq> []
   \<and> Min (date ` set scenario_frame) = 738886
   \<and> Max (date ` set scenario_frame) = 738887
   \<and> align market_value scenario_frame =
       Inr \<lparr>w_index = [738886, 738887],
            w_columns = [(''A'', [Some 100, Some 110]), (''B'', [Some 50, Some 50])]\<rparr>
   \<and> wide_cell \<lparr>w_index = [738886, 738887],
                  w_columns = [(''A'', [Some 100, Some 110]), (''B'', [Some 50, Some 50])]\<rparr>
         ''B'' 738887 = Some (Some 50)
   \<and> plot_market_value scenario_frame scenario_params =
       Inr (Lines [(''Total Portfolio'', [738886, 738887], [Fin 150, Fin 160])])
   \<and> align market_value (rev scenario_frame @ [(blank_row 738885 ''A'')\<lparr>market_value := Some 90\<rparr>]) =
       Inr \<lparr>w_index = [738885, 738886, 738887],
            w_columns = [(''A'', [Some 90, Some 100, Some 110]),
                         (''B'', [None, Some 50, Some 50])]\<rparr>"
proof -
  have d: "distinct (map (\<lambda>r. (date r, stock r)) scenario_frame)"
    and n: "scenario_frame \<noteq> []"
    by (simp_all add: scenario_frame_def blank_row_def)
  have lo: "Min (date ` set scenario_frame) = 738886"
    and hi: "Max (date ` set scenario_frame) = 738887"
    by (simp_all add: scenario_frame_def blank_row_def)
  have a: "align market_value scenario_frame =
       Inr \<lparr>w_index = [738886, 738887],
            w_columns = [(''A'', [Some 100, Some 110]), (''B'', [Some 50, Some 50])]\<rparr>"
    by code_simp
  have p: "plot_market_value scenario_frame scenario_params =
       Inr (Lines [(''Total Portfolio'', [738886, 738887], [Fin 150, Fin 160])])"
    by code_simp
  have e: "align market_value (rev scenario_frame @ [(blank_row 738885 ''A'')\<lparr>market_value := Some 90\<rparr>]) =
       Inr \<lparr>w_index = [738885, 738886, 738887],
            w_columns = [(''A'', [Some 90, Some 100, Some 110]),
                         (''B'', [None, Some 50, Some 50])]\<rparr>"
    by code_simp
  have w: "wide_cell \<lparr>w_index = [738886, 738887],
                  w_columns = [(''A'', [Some 100, Some 110]), (''B'', [Some 50, Some 50])]\<rparr>
         ''B'' 738887 = Some (Some 50)"
    using aligned_cell_is_latest_observation[OF d n, of market_value] a lo hi
    by (simp add: scenario_frame_def blank_row_def)
  show ?thesis using d n lo hi a p e w by simp
qed

section \<open>The percentage return of the portfolio total\<close>

lemma percent_of_nonzero: "b \<noteq> 0 \<Longrightarrow> percent_of a b = Fin (a / b * 100)"
  by (simp add: percent_of_def)

lemma groupby_date_sum_eq:
  "groupby_date_sum col data = map (\<lambda>d. (d, date_sum col data d)) (sort (remdups (map date data)))"
  by (simp add: groupby_date_sum_def date_sum_def)

lemma map2_same: "map2 f (map g xs) (map h xs) = map (\<lambda>x. f (g x) (h x)) xs"
  by (induction xs) simp_all

lemma percentage_series_daily:
  assumes "calculation_type p = ''daily''"
  shows "percentage_series data p =
     Inr (sort (remdups (map date data)),
          map (\<lambda>d. percent_of (date_sum daily_pl data d) (date_sum market_value data d))
              (sort (remdups (map date data))))"
  using assms by (simp add: percentage_series_def groupby_date_sum_eq comp_def map2_same)

lemma percentage_series_aligned:
  assumes "calculation_type p \<noteq> ''daily''"
    and "distinct (map (\<lambda>r. (date r, stock r)) data)" and "data \<noteq> []"
    and "align total_return data = Inr tr" and "align market_value data = Inr mv"
    and "Min (date ` set data) \<le> D" and "D \<le> Max (date ` set data)"
  shows "\<exists>ys. percentage_series data p = Inr ([Min (date ` set data)..Max (date ` set data)], ys)
           \<and> map_of (zip [Min (date ` set data)..Max (date ` set data)] ys) D =
               Some (percent_of (\<Sum>s\<in>stock ` set data. filled_cell tr s D)
                                (\<Sum>s\<in>stock ` set data. filled_cell mv s D))"
proof -
  let ?lo = "Min (date ` set data)" and ?hi = "Max (date ` set data)"
  let ?c = "\<lambda>col s. ffill (map (\<lambda>d. lookup_cell col data d s) [?lo..?hi])"
  let ?w = "\<lambda>col. \<lparr>w_index = [?lo..?hi],
             w_columns = map (\<lambda>s. (s, ?c col s)) (sort (remdups (map stock data)))\<rparr>"
  have tr: "tr = ?w total_return" using align_shape[OF assms(2,3), of total_return] assms(4) by simp
  have mv: "mv = ?w market_value" using align_shape[OF assms(2,3), of market_value] assms(5) by simp
  let ?ys = "map2 percent_of (sum_axis1 tr) (sum_axis1 mv)"
  have ps: "percentage_series data p = Inr ([?lo..?hi], ?ys)"
    using assms(1,4,5) tr by (simp add: percentage_series_def)
  have i: "nat (D - ?lo) < length [?lo..?hi]" using assms(6,7) by simp
  have len: "length (sum_axis1 tr) = length [?lo..?hi]" "length (sum_axis1 mv) = length [?lo..?hi]"
    unfolding tr mv by (simp_all add: sum_axis1_def)
  have fc: "\<And>col s. s \<in> stock ` set data \<Longrightarrow>
              filled_cell (?w col) s D = fillna0 (?c col s ! nat (D - ?lo))"
    using wide_cell_aligned[of _ data ?lo D ?hi "\<lambda>s d. lookup_cell _ data d s"] assms(6,7)
    by (simp add: filled_cell_def fillna0_def split: option.splits)
  have sm: "\<And>col. sum_axis1 (?w col) ! nat (D - ?lo) = (\<Sum>s\<in>stock ` set data. filled_cell (?w col) s D)"
  proof -
    fix col
    have "sum_axis1 (?w col) ! nat (D - ?lo) =
          (\<Sum>s\<in>set (map stock data). fillna0 (?c col s ! nat (D - ?lo)))"
      using i by (rule sum_axis1_labelled)
    also have "\<dots> = (\<Sum>s\<in>stock ` set data. filled_cell (?w col) s D)"
      by (rule sum.cong) (simp_all add: fc)
    finally show "sum_axis1 (?w col) ! nat (D - ?lo) =
                  (\<Sum>s\<in>stock ` set data. filled_cell (?w col) s D)" .
  qed
  have "?ys ! nat (D - ?lo) = percent_of (sum_axis1 tr ! nat (D - ?lo)) (sum_axis1 mv ! nat (D - ?lo))"
    using i len by simp
  then have y: "?ys ! nat (D - ?lo) =
                percent_of (\<Sum>s\<in>stock ` set data. filled_cell tr s D)
                           (\<Sum>s\<in>stock ` set data. filled_cell mv s D)"
    using sm[of total_return] sm[of market_value] tr mv by simp
  have "map_of (zip [?lo..?hi] ?ys) D = Some (?ys ! nat (D - ?lo))"
    using assms(6,7) len by (intro map_of_zip_upto) simp_all
  then show ?thesis using ps y by simp
qed


lemma percentage_line:
  assumes "data \<noteq> []" and "view_type p \<noteq> ''individual_stocks''"
    and "chart_type p = ''percentage''"
    and "\<not> (zero_at_start p \<and> calculation_type p = ''cumulative'')"
    and "percentage_series data p = Inr (xs, ys)"
  shows "plot_profitability data p = Inr (Lines [(''Portfolio Total'', xs, ys)])"
  using assms by (auto simp add: plot_profitability_def portfolio_total_lines_def)

lemma total_metrics_percent:
  assumes "data \<noteq> []" and "chart_type p \<noteq> ''dollar_value''"
  shows "calculate_portfolio_total_metrics data p =
     Inr (PercentTotals
            (map (\<lambda>d. (d, date_sum total_return data d, date_sum market_value data d,
                        percent_of (date_sum total_return data d) (date_sum market_value data d)))
                 (sort (remdups (map date data)))))"
  using assms
  by (simp add: calculate_portfolio_total_metrics_def groupby_date_sum_eq map2_same
      percent_of_def)

text \<open>
  Claim C2, as amended. The percentage series of the portfolio total is a value-weighted
  aggregate, not a sum or an average of the per-stock percentage columns. For daily
  changes it has one value per date of the frame: where the sum of \<open>market_value\<close> over
  the rows of the date is not zero, the sum of \<open>daily_pl\<close> over these rows divided by
  that sum, times 100. Otherwise (cumulative) it has one value per calendar day from the
  first to the last date of the frame: where the sum over the stocks of the aligned,
  forward-filled \<open>market_value\<close> is not zero, the sum over the stocks of the aligned,
  forward-filled \<open>total_return\<close> divided by that sum, times 100; so a stock without a
  row on a day enters both sums with its most recent earlier values. This series is what
  \<open>plot_profitability\<close> draws for the chart type \<open>percentage\<close> when it is not zeroed, and
  \<open>calculate_portfolio_total_metrics\<close> computes the quotient of the per-date sums of
  \<open>total_return\<close> and \<open>market_value\<close>, times 100.
\<close>

theorem percentage_total_is_value_weighted:
  assumes "data \<noteq> []"
  shows "(calculation_type p = ''daily'' \<longrightarrow>
           (\<exists>ys. percentage_series data p = Inr (sort (remdups (map date data)), ys)
              \<and> (\<forall>d\<in>date ` set data. date_sum market_value data d \<noteq> 0 \<longrightarrow>
                    map_of (zip (sort (remdups (map date data))) ys) d =
                      Some (Fin (date_sum daily_pl data d / date_sum market_value data d
                                  * 100)))))
         \<and> (calculation_type p \<noteq> ''daily'' \<and> distinct (map (\<lambda>r. (date r, stock r)) data) \<longrightarrow>
           (\<exists>tr mv ys.
              align total_return data = Inr tr \<and> align market_value data = Inr mv
              \<and> percentage_series data p =
                  Inr ([Min (date ` set data)..Max (date ` set data)], ys)
              \<and> (\<forall>D\<in>{Min (date ` set data)..Max (date ` set data)}.
                    (\<Sum>s\<in>stock ` set data. filled_cell mv s D) \<noteq> 0 \<longrightarrow>
                    map_of (zip [Min (date ` set data)..Max (date ` set data)] ys) D =
                      Some (Fin ((\<Sum>s\<in>stock ` set data. filled_cell tr s D)
                                  / (\<Sum>s\<in>stock ` set data. filled_cell mv s D) * 100)))))
         \<and> (view_type p \<noteq> ''individual_stocks'' \<and> chart_type p = ''percentage''
              \<and> \<not> (zero_at_start p \<and> calculation_type p = ''cumulative'') \<longrightarrow>
           (\<forall>xs ys. percentage_series data p = Inr (xs, ys) \<longrightarrow>
              plot_profitability data p = Inr (Lines [(''Portfolio Total'', xs, ys)])))
         \<and> (chart_type p \<noteq> ''dollar_value'' \<longrightarrow>
           (\<exists>totals. calculate_portfolio_total_metrics data p = Inr (PercentTotals totals)
              \<and> map fst totals = sort (remdups (map date data))
              \<and> (\<forall>d\<in>date ` set data. date_sum market_value data d \<noteq> 0 \<longrightarrow>
                    (d, date_sum total_return data d, date_sum market_value data d,
                     Fin (date_sum total_return data d / date_sum market_value data d * 100))
                    \<in> set totals)))"
proof (intro conjI impI)
  assume c: "calculation_type p = ''daily''"
  let ?ds = "sort (remdups (map date data))"
  let ?ys = "map (\<lambda>d. percent_of (date_sum daily_pl data d) (date_sum market_value data d)) ?ds"
  have "\<forall>d\<in>date ` set data. date_sum market_value data d \<noteq> 0 \<longrightarrow>
          map_of (zip ?ds ?ys) d =
            Some (Fin (date_sum daily_pl data d / date_sum market_value data d * 100))"
    by (simp add: map_of_zip_map percent_of_nonzero)
  then show "\<exists>ys. percentage_series data p = Inr (?ds, ys)
              \<and> (\<forall>d\<in>date ` set data. date_sum market_value data d \<noteq> 0 \<longrightarrow>
                    map_of (zip ?ds ys) d =
                      Some (Fin (date_sum daily_pl data d / date_sum market_value data d
                                  * 100)))"
    using percentage_series_daily[OF c, of data] by blast
next
  assume a: "calculation_type p \<noteq> ''daily'' \<and> distinct (map (\<lambda>r. (date r, stock r)) data)"
  let ?lo = "Min (date ` set data)" and ?hi = "Max (date ` set data)"
  obtain tr where tr: "align total_return data = Inr tr"
    using align_shape[of data total_return] a assms by blast
  obtain mv where mv: "align market_value data = Inr mv"
    using align_shape[of data market_value] a assms by blast
  obtain ys where ys: "percentage_series data p = Inr ([?lo..?hi], ys)"
    using percentage_series_aligned[of p data tr mv ?lo] a assms tr mv by auto
  have "\<forall>D\<in>{?lo..?hi}. (\<Sum>s\<in>stock ` set data. filled_cell mv s D) \<noteq> 0 \<longrightarrow>
          map_of (zip [?lo..?hi] ys) D =
            Some (Fin ((\<Sum>s\<in>stock ` set data. filled_cell tr s D)
                        / (\<Sum>s\<in>stock ` set data. filled_cell mv s D) * 100))"
  proof (intro ballI impI)
    fix D assume D: "D \<in> {?lo..?hi}"
      and nz: "(\<Sum>s\<in>stock ` set data. filled_cell mv s D) \<noteq> 0"
    obtain ys' where "percentage_series data p = Inr ([?lo..?hi], ys')"
      and m: "map_of (zip [?lo..?hi] ys') D =
               Some (percent_of (\<Sum>s\<in>stock ` set data. filled_cell tr s D)
                                (\<Sum>s\<in>stock ` set data. filled_cell mv s D))"
      using percentage_series_aligned[of p data tr mv D] a assms tr mv D by auto
    then have "ys' = ys" using ys by simp
    then show "map_of (zip [?lo..?hi] ys) D =
            Some (Fin ((\<Sum>s\<in>stock ` set data. filled_cell tr s D)
                        / (\<Sum>s\<in>stock ` set data. filled_cell mv s D) * 100))"
      using m nz by (simp add: percent_of_nonzero)
  qed
  then show "\<exists>tr mv ys.
              align total_return data = Inr tr \<and> align market_value data = Inr mv
              \<and> percentage_series data p = Inr ([?lo..?hi], ys)
              \<and> (\<forall>D\<in>{?lo..?hi}.
                    (\<Sum>s\<in>stock ` set data. filled_cell mv s D) \<noteq> 0 \<longrightarrow>
                    map_of (zip [?lo..?hi] ys) D =
                      Some (Fin ((\<Sum>s\<in>stock ` set data. filled_cell tr s D)
                                  / (\<Sum>s\<in>stock ` set data. filled_cell mv s D) * 100)))"
    using tr mv ys by blast
next
  assume "view_type p \<noteq> ''individual_stocks'' \<and> chart_type p = ''percentage''
              \<and> \<not> (zero_at_start p \<and> calculation_type p = ''cumulative'')"
  then show "\<forall>xs ys. percentage_series data p = Inr (xs, ys) \<longrightarrow>
              plot_profitability data p = Inr (Lines [(''Portfolio Total'', xs, ys)])"
    using percentage_line[OF assms, of p] by blast
next
  assume c: "chart_type p \<noteq> ''dollar_value''"
  let ?ds = "sort (remdups (map date data))"
  let ?t = "map (\<lambda>d. (d, date_sum total_return data d, date_sum market_value data d,
                        percent_of (date_sum total_return data d) (date_sum market_value data d)))
                 ?ds"
  have "map fst ?t = ?ds" by (simp add: comp_def)
  moreover have "\<forall>d\<in>date ` set data. date_sum market_value data d \<noteq> 0 \<longrightarrow>
                    (d, date_sum total_return data d, date_sum market_value data d,
                     Fin (date_sum total_return data d / date_sum market_value data d * 100))
                    \<in> set ?t"
    by (auto simp add: percent_of_nonzero image_iff)
  ultimately show "\<exists>totals. calculate_portfolio_total_metrics data p = Inr (PercentTotals totals)
              \<and> map fst totals = ?ds
              \<and> (\<forall>d\<in>date ` set data. date_sum market_value data d \<noteq> 0 \<longrightarrow>
                    (d, date_sum total_return data d, date_sum market_value data d,
                     Fin (date_sum total_return data d / date_sum market_value data d * 100))
                    \<in> set totals)"
    using total_metrics_percent[OF assms c] by blast
qed


lemma gap_frame_series:
  "percentage_series gap_frame (total_params ''cumulative'' ''percentage'' False) =
     Inr ([738886, 738887], [Fin (15 / 2), Fin (25 / 2)])"
  "percentage_series gap_frame (total_params ''daily'' ''percentage'' False) =
     Inr ([738886, 738887], [Fin (15 / 2), Fin 10])"
  "plot_profitability gap_frame (total_params ''cumulative'' ''percentage'' False) =
     Inr (Lines [(''Portfolio Total'', [738886, 738887], [Fin (15 / 2), Fin (25 / 2)])])"
  "calculate_portfolio_total_metrics gap_frame (total_params ''cumulative'' ''percentage'' False) =
     Inr (PercentTotals [(738886, 15, 200, Fin (15 / 2)), (738887, 20, 100, Fin 20)])"
  "align total_return gap_frame =
     Inr \<lparr>w_index = [738886, 738887],
          w_columns = [(''A'', [Some 10, Some 20]), (''B'', [Some 5, Some 5])]\<rparr>"
  "align market_value gap_frame =
     Inr \<lparr>w_index = [738886, 738887],
          w_columns = [(''A'', [Some 100, Some 100]), (''B'', [Some 100, Some 100])]\<rparr>"
  by code_simp+

lemma gap_frame_sums:
  "date_sum market_value gap_frame 738886 = 200"
  "date_sum market_value gap_frame 738887 = 100"
  "date_sum total_return gap_frame 738887 = 20"
  "date_sum daily_pl gap_frame 738887 = 10"
  by (simp_all add: date_sum_def nansum_def fillna0_def gap_frame_def blank_row_def)

theorem percentage_total_is_value_weighted_witness:
  "gap_frame \<noteq> []
   \<and> distinct (map (\<lambda>r. (date r, stock r)) gap_frame)
   \<and> calculation_type (total_params ''cumulative'' ''percentage'' False) \<noteq> ''daily''
   \<and> percentage_series gap_frame (total_params ''cumulative'' ''percentage'' False) =
       Inr ([738886, 738887], [Fin (15 / 2), Fin (25 / 2)])
   \<and> (\<Sum>s\<in>{''A'', ''B''}.
         filled_cell \<lparr>w_index = [738886, 738887],
                       w_columns = [(''A'', [Some 10, Some 20]), (''B'', [Some 5, Some 5])]\<rparr>
           s 738887) = 25
   \<and> (\<Sum>s\<in>{''A'', ''B''}.
         filled_cell \<lparr>w_index = [738886, 738887],
                       w_columns = [(''A'', [Some 100, Some 100]), (''B'', [Some 100, Some 100])]\<rparr>
           s 738887) = 200
   \<and> plot_profitability gap_frame (total_params ''cumulative'' ''percentage'' False) =
       Inr (Lines [(''Portfolio Total'', [738886, 738887], [Fin (15 / 2), Fin (25 / 2)])])
   \<and> calculation_type (total_params ''daily'' ''percentage'' False) = ''daily''
   \<and> date_sum market_value gap_frame 738887 = 100
   \<and> date_sum daily_pl gap_frame 738887 = 10
   \<and> percentage_series gap_frame (total_params ''daily'' ''percentage'' False) =
       Inr ([738886, 738887], [Fin (15 / 2), Fin 10])
   \<and> calculate_portfolio_total_metrics gap_frame
         (total_params ''cumulative'' ''percentage'' False) =
       Inr (PercentTotals [(738886, 15, 200, Fin (15 / 2)), (738887, 20, 100, Fin 20)])"
proof -
  have n: "gap_frame \<noteq> []" and d: "distinct (map (\<lambda>r. (date r, stock r)) gap_frame)"
    by (simp_all add: gap_frame_def blank_row_def)
  have c: "calculation_type (total_params ''cumulative'' ''percentage'' False) \<noteq> ''daily''"
    "calculation_type (total_params ''daily'' ''percentage'' False) = ''daily''"
    by (simp_all add: total_params_def blank_params_def)
  have f: "(\<Sum>s\<in>{''A'', ''B''}.
         filled_cell \<lparr>w_index = [738886, 738887],
                       w_columns = [(''A'', [Some 10, Some 20]), (''B'', [Some 5, Some 5])]\<rparr>
           s 738887) = 25"
    "(\<Sum>s\<in>{''A'', ''B''}.
         filled_cell \<lparr>w_index = [738886, 738887],
                       w_columns = [(''A'', [Some 100, Some 100]), (''B'', [Some 100, Some 100])]\<rparr>
           s 738887) = 200"
    by (simp_all add: filled_cell_def wide_cell_def)
  have "percentage_series gap_frame (total_params ''cumulative'' ''percentage'' False) =
       Inr ([738886, 738887], [Fin (15 / 2), Fin (25 / 2)])"
    using percentage_total_is_value_weighted[OF n,
            of "total_params ''cumulative'' ''percentage'' False"] gap_frame_series(1)
    by simp
  then show ?thesis using n d c f gap_frame_series gap_frame_sums by simp
qed

text \<open>The claim as stated fails for the cumulative series of a frame in which a stock
  has no row on a date of another stock. Every per-date sum of \<open>market_value\<close> is
  positive (200 and 100), and on 2024-01-02 the sum of \<open>total_return\<close> over the rows of
  that date divided by the sum of \<open>market_value\<close> over these rows, times 100, is 20; the
  series holds 12.5 there, because stock B enters both sums with its values of the day
  before.\<close>

theorem cumulative_percentage_uses_filled_values:
  "percentage_series gap_frame (total_params ''cumulative'' ''percentage'' False) =
     Inr ([738886, 738887], [Fin (15 / 2), Fin (25 / 2)])
   \<and> date_sum market_value gap_frame 738886 = 200
   \<and> date_sum market_value gap_frame 738887 = 100
   \<and> date_sum total_return gap_frame 738887 / date_sum market_value gap_frame 738887 * 100 = 20
   \<and> (25 / 2 :: real) \<noteq> 20"
  using gap_frame_series(1) gap_frame_sums by simp

section \<open>The dollar return of the portfolio total\<close>

text \<open>The cumulative dollar series of the portfolio total is the row sum of the aligned
  \<open>total_return\<close> table.\<close>

lemma cumulative_dollar_total_is_filled_sum:
  assumes "distinct (map (\<lambda>r. (date r, stock r)) data)" and "data \<noteq> []"
    and "view_type p \<noteq> ''individual_stocks''" and "calculation_type p = ''cumulative''"
    and "chart_type p = ''dollar_value''" and "\<not> zero_at_start p"
  shows "\<exists>w. align total_return data = Inr w
           \<and> plot_profitability data p =
               Inr (Lines [(''Portfolio Total'', w_index w, map Fin (sum_axis1 w))])"
  using assms align_shape[OF assms(1,2), of total_return]
  by (simp add: plot_profitability_def portfolio_total_lines_def profitability_metric_def)

text \<open>
  Claim C7. In the dollar-value mode the series of the portfolio total should be the
  direct sum across the stocks, per date, of \<open>daily_pl\<close> for daily changes and of the
  forward-filled \<open>total_return\<close> for the cumulative view. The code computes the
  cumulative series only: for daily changes neither branch of the portfolio-total path of
  \<open>plot_profitability\<close> applies, and no series is computed at all, for any frame; and
  \<open>calculate_portfolio_total_metrics\<close> sums \<open>total_return\<close> whatever the calculation type.
\<close>

theorem daily_dollar_total_draws_no_series:
  assumes "data \<noteq> []" and "view_type p \<noteq> ''individual_stocks''"
    and "calculation_type p = ''daily''" and "chart_type p = ''dollar_value''"
  shows "plot_profitability data p = Inr (Lines [])
         \<and> calculate_portfolio_total_metrics data p =
             Inr (DollarTotals (groupby_date_sum total_return data))"
  using assms
  by (simp add: plot_profitability_def portfolio_total_lines_def
      calculate_portfolio_total_metrics_def)

text \<open>On one stock with the daily results 10, 5 and 5 the portfolio total for daily
  changes in dollars has no line, where the claim has the series 10, 5, 5; the
  individual view draws this series, and the cumulative view draws 10, 15, 20.\<close>

theorem daily_dollar_total_draws_no_series_witness:
  "returns_frame \<noteq> []
   \<and> view_type (total_params ''daily'' ''dollar_value'' False) \<noteq> ''individual_stocks''
   \<and> calculation_type (total_params ''daily'' ''dollar_value'' False) = ''daily''
   \<and> chart_type (total_params ''daily'' ''dollar_value'' False) = ''dollar_value''
   \<and> plot_profitability returns_frame (total_params ''daily'' ''dollar_value'' False) =
       Inr (Lines [])
   \<and> groupby_date_sum daily_pl returns_frame = [(738886, 10), (738887, 5), (738888, 5)]
   \<and> plot_profitability returns_frame
         ((total_params ''daily'' ''dollar_value'' False)
            \<lparr>view_type := ''individual_stocks'', selected_stocks := [''A'']\<rparr>) =
       Inr (Lines [(''A'', [738886, 738887, 738888], [Fin 10, Fin 5, Fin 5])])
   \<and> plot_profitability returns_frame (total_params ''cumulative'' ''dollar_value'' False) =
       Inr (Lines [(''Portfolio Total'', [738886, 738887, 738888],
                    [Fin 10, Fin 15, Fin 20])])
   \<and> calculate_portfolio_total_metrics returns_frame
         (total_params ''daily'' ''dollar_value'' False) =
       Inr (DollarTotals [(738886, 10), (738887, 15), (738888, 20)])"
proof -
  have n: "returns_frame \<noteq> []" by (simp add: returns_frame_def)
  have p: "view_type (total_params ''daily'' ''dollar_value'' False) \<noteq> ''individual_stocks''"
    "calculation_type (total_params ''daily'' ''dollar_value'' False) = ''daily''"
    "chart_type (total_params ''daily'' ''dollar_value'' False) = ''dollar_value''"
    by (simp_all add: total_params_def blank_params_def)
  have g: "groupby_date_sum daily_pl returns_frame = [(738886, 10), (738887, 5), (738888, 5)]"
    "groupby_date_sum total_return returns_frame = [(738886, 10), (738887, 15), (738888, 20)]"
    by code_simp+
  have i: "plot_profitability returns_frame
         ((total_params ''daily'' ''dollar_value'' False)
            \<lparr>view_type := ''individual_stocks'', selected_stocks := [''A'']\<rparr>) =
       Inr (Lines [(''A'', [738886, 738887, 738888], [Fin 10, Fin 5, Fin 5])])"
    by code_simp
  show ?thesis
    using daily_dollar_total_draws_no_series[OF n p] n p g i returns_frame_cumulative
    by simp
qed

end
